theory Spec2Isabelle
  imports Complex_Main
begin

section \<open>JavaScript values\<close>

text \<open>
  The values a caller can hand to \<open>Shader.setUniform\<close>. A JavaScript number is a double:
  its finite values are rationals, and the three non-finite ones are kept apart. An array
  is the list of its elements (\<open>value.length\<close> is the length of that list).
\<close>

datatype js_number = Finite rat | NaN | PosInfinity | NegInfinity

datatype js_value =
    JUndefined
  | JNull
  | JBoolean bool
  | JNumber js_number
  | JString string
  | JArray "js_value list"

text \<open>\<open>Array.isArray(value)\<close>.\<close>

fun Array_isArray :: "js_value \<Rightarrow> bool" where
  "Array_isArray (JArray vs) = True"
| "Array_isArray v = False"

text \<open>\<open>Number.isInteger(value)\<close>: a number, finite, with no fractional part.\<close>

fun Number_isInteger :: "js_value \<Rightarrow> bool" where
  "Number_isInteger (JNumber (Finite q)) = (of_int \<lfloor>q\<rfloor> = q)"
| "Number_isInteger v = False"

text \<open>
  \<open>new Float32Array(value)\<close>: the typed array built from the elements of a JavaScript
  array. The rounding of each element to binary32 is not modelled; the typed array is
  identified by the elements it was built from.
\<close>

datatype float32array = Float32Array "js_value list"

text \<open>
  The decimal text of a non-negative integer, as string concatenation (\<open>'...' + n\<close>)
  and \<open>for (let unit in textures)\<close> produce it.
\<close>

definition digit :: "nat \<Rightarrow> char" where
  "digit d = ''0123456789'' ! (d mod 10)"

fun decimal :: "nat \<Rightarrow> string" where
  "decimal n = (if n < 10 then [digit n] else decimal (n div 10) @ [digit (n mod 10)])"

declare decimal.simps [simp del]

text \<open>
  What a JavaScript call ends with: a value it returns, or a value it throws. Everything
  this program throws is a string.
\<close>

datatype 'a completion = Normal 'a | Throw string

section \<open>The WebGL context\<close>

text \<open>
  The program is a wrapper over a WebGL rendering context \<open>gl\<close>, which it mutates in
  place. The context is modelled as a record that every operation takes and returns, and
  that also keeps the list of the calls made on it, in order.
\<close>

type_synonym handle = nat

datatype gl_const =
    FRAMEBUFFER | RENDERBUFFER | TEXTURE_2D | ARRAY_BUFFER
  | TEXTURE_MAG_FILTER | TEXTURE_MIN_FILTER | LINEAR | LINEAR_MIPMAP_NEAREST
  | RGBA | UNSIGNED_BYTE | DEPTH_COMPONENT16
  | COLOR_ATTACHMENT0 | DEPTH_ATTACHMENT
  | VERTEX_SHADER | FRAGMENT_SHADER | COMPILE_STATUS | LINK_STATUS
  | STATIC_DRAW | FLOAT | TRIANGLE_STRIP

datatype gl_call =
    CreateFramebuffer
  | BindFramebuffer gl_const "handle option"
  | CreateTexture
  | ActiveTexture nat
  | BindTexture gl_const "handle option"
  | TexParameteri gl_const gl_const gl_const
  | GenerateMipmap gl_const
  | TexImage2D gl_const int gl_const nat nat int gl_const gl_const
  | CreateRenderbuffer
  | BindRenderbuffer gl_const "handle option"
  | RenderbufferStorage gl_const gl_const nat nat
  | FramebufferTexture2D gl_const gl_const gl_const handle int
  | FramebufferRenderbuffer gl_const gl_const gl_const handle
  | CreateProgram
  | CreateShader gl_const
  | ShaderSource handle string
  | CompileShader handle
  | GetShaderParameter handle gl_const
  | GetShaderInfoLog handle
  | AttachShader handle handle
  | LinkProgram handle
  | GetProgramParameter handle gl_const
  | GetProgramInfoLog handle
  | CreateBuffer
  | BindBuffer gl_const "handle option"
  | BufferData gl_const float32array gl_const
  | UseProgram "handle option"
  | GetAttribLocation handle string
  | GetUniformLocation handle string
  | Uniform1fv nat float32array
  | Uniform2fv nat float32array
  | Uniform3fv nat float32array
  | Uniform4fv nat float32array
  | UniformMatrix3fv nat bool float32array
  | UniformMatrix4fv nat bool float32array
  | Uniform1i nat js_value
  | Uniform1f nat js_value
  | Viewport int int nat nat
  | EnableVertexAttribArray int
  | VertexAttribPointer int int gl_const bool int int
  | DrawArrays gl_const int int

text \<open>
  The objects of the context. \<open>fb_width\<close> and \<open>fb_height\<close> are the two properties the
  program itself writes on the framebuffer object (\<open>this.hiddenSurface.width = width\<close>);
  they are undefined until written.
\<close>

record framebuffer_obj =
  fb_width :: "nat option"
  fb_height :: "nat option"
  fb_color :: "handle option"
  fb_depth :: "handle option"

record texture_obj =
  tex_params :: "gl_const \<rightharpoonup> gl_const"
  tex_image :: "(nat \<times> nat) option"

record renderbuffer_obj =
  rb_storage :: "(gl_const \<times> nat \<times> nat) option"

record shader_obj =
  sh_type :: gl_const
  sh_source :: string
  sh_status :: bool
  sh_log :: string

text \<open>What the driver's linker answers for the shaders attached to a program.\<close>

record link_result =
  lk_ok :: bool
  lk_log :: string
  lk_uniforms :: "string \<rightharpoonup> nat"
  lk_attribs :: "string \<Rightarrow> int"

record program_obj =
  pr_shaders :: "handle list"
  pr_link :: link_result

text \<open>
  The context. \<open>compiler\<close> and \<open>linker\<close> are the driver: status and diagnostic text for
  a shader source, and the link result for the attached shader objects. They are
  parameters of the model. \<open>uniforms\<close> keeps, for a program and a location, the last
  call that wrote it.
\<close>

record gl =
  next_id :: handle
  framebuffers :: "handle \<rightharpoonup> framebuffer_obj"
  textures :: "handle \<rightharpoonup> texture_obj"
  renderbuffers :: "handle \<rightharpoonup> renderbuffer_obj"
  shaders :: "handle \<rightharpoonup> shader_obj"
  programs :: "handle \<rightharpoonup> program_obj"
  buffers :: "handle \<rightharpoonup> (float32array \<times> gl_const) option"
  framebuffer_binding :: "handle option"
  renderbuffer_binding :: "handle option"
  array_buffer_binding :: "handle option"
  active_texture :: nat
  texture_binding :: "nat \<Rightarrow> handle option"
  current_program :: "handle option"
  viewport :: "(int \<times> int \<times> nat \<times> nat) option"
  uniforms :: "handle \<times> nat \<rightharpoonup> gl_call"
  compiler :: "gl_const \<Rightarrow> string \<Rightarrow> bool \<times> string"
  linker :: "shader_obj list \<Rightarrow> link_result"
  trace :: "gl_call list"

definition unlinked :: link_result where
  "unlinked = \<lparr>lk_ok = False, lk_log = [], lk_uniforms = Map.empty, lk_attribs = (\<lambda>n. - 1)\<rparr>"

text \<open>The shader objects behind a list of handles, in order.\<close>

definition attached_objs :: "gl \<Rightarrow> handle list \<Rightarrow> shader_obj list" where
  "attached_objs g hs = concat (map (\<lambda>s. case shaders g s of None \<Rightarrow> [] | Some ob \<Rightarrow> [ob]) hs)"

text \<open>A uniform call writes the location of the program in use; with no program in use it
  is an error of the context and writes nothing.\<close>

definition write_uniform :: "nat \<Rightarrow> gl_call \<Rightarrow> gl \<Rightarrow> gl" where
  "write_uniform loc c g =
     (case current_program g of
        None \<Rightarrow> g
      | Some p \<Rightarrow> g\<lparr>uniforms := (uniforms g)((p, loc) \<mapsto> c)\<rparr>)"

text \<open>
  The effect of one call on the state of the context (the list of calls apart). Calls that
  only query, and the draw calls, leave the modelled state as it is. Limits and validation
  of the driver (maximal sizes, type checks of uniforms, completeness) are not modelled.
\<close>

fun gl_step :: "gl_call \<Rightarrow> gl \<Rightarrow> gl" where
  "gl_step CreateFramebuffer g =
     g\<lparr>framebuffers := (framebuffers g)(next_id g \<mapsto>
          \<lparr>fb_width = None, fb_height = None, fb_color = None, fb_depth = None\<rparr>),
       next_id := Suc (next_id g)\<rparr>"
| "gl_step (BindFramebuffer tgt fb) g =
     (if tgt = FRAMEBUFFER then g\<lparr>framebuffer_binding := fb\<rparr> else g)"
| "gl_step CreateTexture g =
     g\<lparr>textures := (textures g)(next_id g \<mapsto> \<lparr>tex_params = Map.empty, tex_image = None\<rparr>),
       next_id := Suc (next_id g)\<rparr>"
| "gl_step (ActiveTexture u) g = g\<lparr>active_texture := u\<rparr>"
| "gl_step (BindTexture tgt t) g =
     (if tgt = TEXTURE_2D
      then g\<lparr>texture_binding := (texture_binding g)(active_texture g := t)\<rparr> else g)"
| "gl_step (TexParameteri tgt pname v) g =
     (case (if tgt = TEXTURE_2D then texture_binding g (active_texture g) else None) of
        None \<Rightarrow> g
      | Some t \<Rightarrow>
          (case textures g t of
             None \<Rightarrow> g
           | Some ob \<Rightarrow>
               g\<lparr>textures := (textures g)(t \<mapsto> ob\<lparr>tex_params := (tex_params ob)(pname \<mapsto> v)\<rparr>)\<rparr>))"
| "gl_step (TexImage2D tgt level ifmt w h border fmt ty) g =
     (case (if tgt = TEXTURE_2D then texture_binding g (active_texture g) else None) of
        None \<Rightarrow> g
      | Some t \<Rightarrow>
          (case textures g t of
             None \<Rightarrow> g
           | Some ob \<Rightarrow> g\<lparr>textures := (textures g)(t \<mapsto> ob\<lparr>tex_image := Some (w, h)\<rparr>)\<rparr>))"
| "gl_step CreateRenderbuffer g =
     g\<lparr>renderbuffers := (renderbuffers g)(next_id g \<mapsto> \<lparr>rb_storage = None\<rparr>),
       next_id := Suc (next_id g)\<rparr>"
| "gl_step (BindRenderbuffer tgt rb) g =
     (if tgt = RENDERBUFFER then g\<lparr>renderbuffer_binding := rb\<rparr> else g)"
| "gl_step (RenderbufferStorage tgt fmt w h) g =
     (case (if tgt = RENDERBUFFER then renderbuffer_binding g else None) of
        None \<Rightarrow> g
      | Some rb \<Rightarrow> g\<lparr>renderbuffers := (renderbuffers g)(rb \<mapsto> \<lparr>rb_storage = Some (fmt, w, h)\<rparr>)\<rparr>)"
| "gl_step (FramebufferTexture2D tgt att textgt t level) g =
     (case (if tgt = FRAMEBUFFER \<and> att = COLOR_ATTACHMENT0 then framebuffer_binding g else None) of
        None \<Rightarrow> g
      | Some fb \<Rightarrow>
          (case framebuffers g fb of
             None \<Rightarrow> g
           | Some ob \<Rightarrow> g\<lparr>framebuffers := (framebuffers g)(fb \<mapsto> ob\<lparr>fb_color := Some t\<rparr>)\<rparr>))"
| "gl_step (FramebufferRenderbuffer tgt att rbtgt rb) g =
     (case (if tgt = FRAMEBUFFER \<and> att = DEPTH_ATTACHMENT then framebuffer_binding g else None) of
        None \<Rightarrow> g
      | Some fb \<Rightarrow>
          (case framebuffers g fb of
             None \<Rightarrow> g
           | Some ob \<Rightarrow> g\<lparr>framebuffers := (framebuffers g)(fb \<mapsto> ob\<lparr>fb_depth := Some rb\<rparr>)\<rparr>))"
| "gl_step CreateProgram g =
     g\<lparr>programs := (programs g)(next_id g \<mapsto> \<lparr>pr_shaders = [], pr_link = unlinked\<rparr>),
       next_id := Suc (next_id g)\<rparr>"
| "gl_step (CreateShader ty) g =
     g\<lparr>shaders := (shaders g)(next_id g \<mapsto>
          \<lparr>sh_type = ty, sh_source = [], sh_status = False, sh_log = []\<rparr>),
       next_id := Suc (next_id g)\<rparr>"
| "gl_step (ShaderSource s src) g =
     (case shaders g s of
        None \<Rightarrow> g
      | Some ob \<Rightarrow> g\<lparr>shaders := (shaders g)(s \<mapsto> ob\<lparr>sh_source := src\<rparr>)\<rparr>)"
| "gl_step (CompileShader s) g =
     (case shaders g s of
        None \<Rightarrow> g
      | Some ob \<Rightarrow>
          g\<lparr>shaders := (shaders g)(s \<mapsto>
               ob\<lparr>sh_status := fst (compiler g (sh_type ob) (sh_source ob)),
                  sh_log := snd (compiler g (sh_type ob) (sh_source ob))\<rparr>)\<rparr>)"
| "gl_step (AttachShader p s) g =
     (case programs g p of
        None \<Rightarrow> g
      | Some ob \<Rightarrow> g\<lparr>programs := (programs g)(p \<mapsto> ob\<lparr>pr_shaders := pr_shaders ob @ [s]\<rparr>)\<rparr>)"
| "gl_step (LinkProgram p) g =
     (case programs g p of
        None \<Rightarrow> g
      | Some ob \<Rightarrow>
          g\<lparr>programs := (programs g)(p \<mapsto>
               ob\<lparr>pr_link := linker g (attached_objs g (pr_shaders ob))\<rparr>)\<rparr>)"
| "gl_step CreateBuffer g =
     g\<lparr>buffers := (buffers g)(next_id g \<mapsto> None), next_id := Suc (next_id g)\<rparr>"
| "gl_step (BindBuffer tgt b) g =
     (if tgt = ARRAY_BUFFER then g\<lparr>array_buffer_binding := b\<rparr> else g)"
| "gl_step (BufferData tgt dat usage) g =
     (case (if tgt = ARRAY_BUFFER then array_buffer_binding g else None) of
        None \<Rightarrow> g
      | Some b \<Rightarrow> g\<lparr>buffers := (buffers g)(b \<mapsto> Some (dat, usage))\<rparr>)"
| "gl_step (UseProgram p) g = g\<lparr>current_program := p\<rparr>"
| "gl_step (Uniform1fv loc a) g = write_uniform loc (Uniform1fv loc a) g"
| "gl_step (Uniform2fv loc a) g = write_uniform loc (Uniform2fv loc a) g"
| "gl_step (Uniform3fv loc a) g = write_uniform loc (Uniform3fv loc a) g"
| "gl_step (Uniform4fv loc a) g = write_uniform loc (Uniform4fv loc a) g"
| "gl_step (UniformMatrix3fv loc tr a) g = write_uniform loc (UniformMatrix3fv loc tr a) g"
| "gl_step (UniformMatrix4fv loc tr a) g = write_uniform loc (UniformMatrix4fv loc tr a) g"
| "gl_step (Uniform1i loc v) g = write_uniform loc (Uniform1i loc v) g"
| "gl_step (Uniform1f loc v) g = write_uniform loc (Uniform1f loc v) g"
| "gl_step (Viewport x y w h) g = g\<lparr>viewport := Some (x, y, w, h)\<rparr>"
| "gl_step (GenerateMipmap tgt) g = g"
| "gl_step (GetShaderParameter s pname) g = g"
| "gl_step (GetShaderInfoLog s) g = g"
| "gl_step (GetProgramParameter p pname) g = g"
| "gl_step (GetProgramInfoLog p) g = g"
| "gl_step (GetAttribLocation p name) g = g"
| "gl_step (GetUniformLocation p name) g = g"
| "gl_step (EnableVertexAttribArray a) g = g"
| "gl_step (VertexAttribPointer a n ty nrm stride off) g = g"
| "gl_step (DrawArrays mode first cnt) g = g"

text \<open>A call on the context: its effect, and its entry in the list of calls.\<close>

definition gl_exec :: "gl_call \<Rightarrow> gl \<Rightarrow> gl" where
  "gl_exec c g = (gl_step c g)\<lparr>trace := trace g @ [c]\<rparr>"

text \<open>A sequence of calls, first to last.\<close>

fun run :: "gl_call list \<Rightarrow> gl \<Rightarrow> gl" where
  "run [] g = g"
| "run (c # cs) g = run cs (gl_exec c g)"

text \<open>The calls that return a value to the program.\<close>

definition gl_createFramebuffer :: "gl \<Rightarrow> handle \<times> gl" where
  "gl_createFramebuffer g = (next_id g, gl_exec CreateFramebuffer g)"

definition gl_createTexture :: "gl \<Rightarrow> handle \<times> gl" where
  "gl_createTexture g = (next_id g, gl_exec CreateTexture g)"

definition gl_createRenderbuffer :: "gl \<Rightarrow> handle \<times> gl" where
  "gl_createRenderbuffer g = (next_id g, gl_exec CreateRenderbuffer g)"

definition gl_createProgram :: "gl \<Rightarrow> handle \<times> gl" where
  "gl_createProgram g = (next_id g, gl_exec CreateProgram g)"

definition gl_createShader :: "gl_const \<Rightarrow> gl \<Rightarrow> handle \<times> gl" where
  "gl_createShader ty g = (next_id g, gl_exec (CreateShader ty) g)"

definition gl_createBuffer :: "gl \<Rightarrow> handle \<times> gl" where
  "gl_createBuffer g = (next_id g, gl_exec CreateBuffer g)"

text \<open>\<open>getShaderParameter(shader, COMPILE_STATUS)\<close> and \<open>getShaderInfoLog(shader)\<close>.\<close>

definition gl_getShaderParameter :: "handle \<Rightarrow> gl_const \<Rightarrow> gl \<Rightarrow> bool \<times> gl" where
  "gl_getShaderParameter s pname g =
     ((case shaders g s of None \<Rightarrow> False | Some ob \<Rightarrow> pname = COMPILE_STATUS \<and> sh_status ob),
      gl_exec (GetShaderParameter s pname) g)"

definition gl_getShaderInfoLog :: "handle \<Rightarrow> gl \<Rightarrow> string \<times> gl" where
  "gl_getShaderInfoLog s g =
     ((case shaders g s of None \<Rightarrow> [] | Some ob \<Rightarrow> sh_log ob),
      gl_exec (GetShaderInfoLog s) g)"

text \<open>\<open>getProgramParameter(program, LINK_STATUS)\<close> and \<open>getProgramInfoLog(program)\<close>.\<close>

definition gl_getProgramParameter :: "handle \<Rightarrow> gl_const \<Rightarrow> gl \<Rightarrow> bool \<times> gl" where
  "gl_getProgramParameter p pname g =
     ((case programs g p of None \<Rightarrow> False | Some ob \<Rightarrow> pname = LINK_STATUS \<and> lk_ok (pr_link ob)),
      gl_exec (GetProgramParameter p pname) g)"

definition gl_getProgramInfoLog :: "handle \<Rightarrow> gl \<Rightarrow> string \<times> gl" where
  "gl_getProgramInfoLog p g =
     ((case programs g p of None \<Rightarrow> [] | Some ob \<Rightarrow> lk_log (pr_link ob)),
      gl_exec (GetProgramInfoLog p) g)"

text \<open>\<open>getAttribLocation(program, name)\<close>: \<open>-1\<close> when there is no such attribute.\<close>

definition gl_getAttribLocation :: "handle \<Rightarrow> string \<Rightarrow> gl \<Rightarrow> int \<times> gl" where
  "gl_getAttribLocation p name g =
     ((case programs g p of
         None \<Rightarrow> - 1
       | Some ob \<Rightarrow> if lk_ok (pr_link ob) then lk_attribs (pr_link ob) name else - 1),
      gl_exec (GetAttribLocation p name) g)"

text \<open>
  \<open>getUniformLocation(program, name)\<close>: the location of an active uniform of a linked
  program, and \<open>null\<close> (\<open>None\<close>) for every other name.
\<close>

definition uniform_location :: "gl \<Rightarrow> handle \<Rightarrow> string \<Rightarrow> nat option" where
  "uniform_location g p name =
     (case programs g p of
        None \<Rightarrow> None
      | Some ob \<Rightarrow> if lk_ok (pr_link ob) then lk_uniforms (pr_link ob) name else None)"

definition gl_getUniformLocation :: "handle \<Rightarrow> string \<Rightarrow> gl \<Rightarrow> nat option \<times> gl" where
  "gl_getUniformLocation p name g =
     (uniform_location g p name, gl_exec (GetUniformLocation p name) g)"

section \<open>HiddenSurface\<close>

text \<open>
  The fields of a \<open>HiddenSurface\<close>: the handles of its framebuffer, its colour texture
  and its depth renderbuffer (the context is passed to every operation).
\<close>

record HiddenSurface =
  hiddenSurface :: handle
  framebuffer_texture :: handle
  render_buffer :: handle

text \<open>
  Property writes and reads on the framebuffer object: \<open>this.hiddenSurface.width = width\<close>
  and \<open>this.hiddenSurface.width\<close>. A property never written reads \<open>undefined\<close>, which the
  context takes as the size 0.
\<close>

definition set_width :: "handle \<Rightarrow> nat \<Rightarrow> gl \<Rightarrow> gl" where
  "set_width fb w g =
     (case framebuffers g fb of
        None \<Rightarrow> g
      | Some ob \<Rightarrow> g\<lparr>framebuffers := (framebuffers g)(fb \<mapsto> ob\<lparr>fb_width := Some w\<rparr>)\<rparr>)"

definition set_height :: "handle \<Rightarrow> nat \<Rightarrow> gl \<Rightarrow> gl" where
  "set_height fb h g =
     (case framebuffers g fb of
        None \<Rightarrow> g
      | Some ob \<Rightarrow> g\<lparr>framebuffers := (framebuffers g)(fb \<mapsto> ob\<lparr>fb_height := Some h\<rparr>)\<rparr>)"

definition get_width :: "handle \<Rightarrow> gl \<Rightarrow> nat" where
  "get_width fb g =
     (case framebuffers g fb of
        None \<Rightarrow> 0
      | Some ob \<Rightarrow> (case fb_width ob of None \<Rightarrow> 0 | Some w \<Rightarrow> w))"

definition get_height :: "handle \<Rightarrow> gl \<Rightarrow> nat" where
  "get_height fb g =
     (case framebuffers g fb of
        None \<Rightarrow> 0
      | Some ob \<Rightarrow> (case fb_height ob of None \<Rightarrow> 0 | Some h \<Rightarrow> h))"

text \<open>
  The constructor \<open>new HiddenSurface(gl, width, height)\<close>. The last argument of
  \<open>texImage2D\<close>, the pixel data, is \<open>null\<close> in the source and has no place in the call.
\<close>

definition HiddenSurface_new :: "gl \<Rightarrow> nat \<Rightarrow> nat \<Rightarrow> HiddenSurface \<times> gl" where
  "HiddenSurface_new g0 width height =
     (let (fb, g) = gl_createFramebuffer g0;
          g = gl_exec (BindFramebuffer FRAMEBUFFER (Some fb)) g;
          g = set_width fb width g;
          g = set_height fb height g;
          (tex, g) = gl_createTexture g;
          g = gl_exec (BindTexture TEXTURE_2D (Some tex)) g;
          g = gl_exec (TexParameteri TEXTURE_2D TEXTURE_MAG_FILTER LINEAR) g;
          g = gl_exec (TexParameteri TEXTURE_2D TEXTURE_MIN_FILTER LINEAR_MIPMAP_NEAREST) g;
          g = gl_exec (GenerateMipmap TEXTURE_2D) g;
          g = gl_exec (TexImage2D TEXTURE_2D 0 RGBA (get_width fb g) (get_height fb g) 0
                 RGBA UNSIGNED_BYTE) g;
          (rb, g) = gl_createRenderbuffer g;
          g = gl_exec (BindRenderbuffer RENDERBUFFER (Some rb)) g;
          g = gl_exec (RenderbufferStorage RENDERBUFFER DEPTH_COMPONENT16
                 (get_width fb g) (get_height fb g)) g;
          g = gl_exec (FramebufferTexture2D FRAMEBUFFER COLOR_ATTACHMENT0 TEXTURE_2D tex 0) g;
          g = gl_exec (FramebufferRenderbuffer FRAMEBUFFER DEPTH_ATTACHMENT RENDERBUFFER rb) g;
          g = gl_exec (BindTexture TEXTURE_2D None) g;
          g = gl_exec (BindRenderbuffer RENDERBUFFER None) g;
          g = gl_exec (BindFramebuffer FRAMEBUFFER None) g
      in (\<lparr>hiddenSurface = fb, framebuffer_texture = tex, render_buffer = rb\<rparr>, g))"

text \<open>\<open>unbind()\<close>, \<open>bind()\<close> and \<open>getTexture()\<close>.\<close>

definition unbind :: "HiddenSurface \<Rightarrow> gl \<Rightarrow> gl" where
  "unbind hs g = gl_exec (BindTexture TEXTURE_2D None) g"

definition bind :: "HiddenSurface \<Rightarrow> gl \<Rightarrow> gl" where
  "bind hs g = gl_exec (BindFramebuffer FRAMEBUFFER (Some (hiddenSurface hs))) g"

definition getTexture :: "HiddenSurface \<Rightarrow> handle" where
  "getTexture hs = framebuffer_texture hs"

section \<open>Surfaces and textures as \<open>render\<close> sees them\<close>

text \<open>
  \<open>Shader.render\<close> calls \<open>bind\<close>, \<open>getWidth\<close>, \<open>getHeight\<close> and \<open>unbind\<close> on whatever
  surface it is given, and \<open>use(unit)\<close> and \<open>unuse(unit)\<close> on each texture. The classes
  \<open>Surface\<close> and \<open>Texture\<close> are not part of the source at hand, so an object is the
  table of its methods, each a function on the context; \<open>render\<close> is defined for every
  such table.
\<close>

record Surface =
  sf_bind :: "gl \<Rightarrow> gl"
  sf_unbind :: "gl \<Rightarrow> gl"
  sf_getWidth :: "gl \<Rightarrow> nat"
  sf_getHeight :: "gl \<Rightarrow> nat"

record Texture =
  tx_use :: "string \<Rightarrow> gl \<Rightarrow> gl"
  tx_unuse :: "string \<Rightarrow> gl \<Rightarrow> gl"

text \<open>
  Modelled from the spec: \<open>getWidth\<close> and \<open>getHeight\<close> of a hidden target, which
  \<open>HiddenSurface\<close> inherits from the class \<open>Surface\<close> (not part of the source at hand).
  The spec has \<open>render\<close> set the viewport to the target's declared dimensions; for a hidden
  target these are the width and height written on its framebuffer.
\<close>

definition getWidth :: "HiddenSurface \<Rightarrow> gl \<Rightarrow> nat" where
  "getWidth hs g = get_width (hiddenSurface hs) g"

definition getHeight :: "HiddenSurface \<Rightarrow> gl \<Rightarrow> nat" where
  "getHeight hs g = get_height (hiddenSurface hs) g"

text \<open>A hidden surface as a render target.\<close>

definition hidden_target :: "HiddenSurface \<Rightarrow> Surface" where
  "hidden_target hs =
     \<lparr>sf_bind = bind hs, sf_unbind = unbind hs,
      sf_getWidth = getWidth hs, sf_getHeight = getHeight hs\<rparr>"

text \<open>
  Objects whose methods are fixed sequences of calls on the context: a surface that binds
  with the calls \<open>bs\<close> and unbinds with \<open>us\<close>, and a texture that issues \<open>u unit\<close> on
  \<open>use(unit)\<close> and \<open>v unit\<close> on \<open>unuse(unit)\<close>.
\<close>

definition scripted_surface ::
    "gl_call list \<Rightarrow> gl_call list \<Rightarrow> (gl \<Rightarrow> nat) \<Rightarrow> (gl \<Rightarrow> nat) \<Rightarrow> Surface" where
  "scripted_surface bs us gw gh =
     \<lparr>sf_bind = run bs, sf_unbind = run us, sf_getWidth = gw, sf_getHeight = gh\<rparr>"

definition scripted_texture ::
    "(string \<Rightarrow> gl_call list) \<times> (string \<Rightarrow> gl_call list) \<Rightarrow> Texture" where
  "scripted_texture uv = \<lparr>tx_use = (\<lambda>k. run (fst uv k)), tx_unuse = (\<lambda>k. run (snd uv k))\<rparr>"

section \<open>Shader\<close>

text \<open>
  The fields of a \<open>Shader\<close> that was constructed and not destroyed: the handles of its
  program and of the quad's vertex buffer, and the location of the attribute \<open>position\<close>.
\<close>

record Shader =
  program :: handle
  vertexBuffer :: handle
  vertexAttribute :: int

text \<open>The data of the static quad, \<open>new Float32Array([-1, -1, 0, 0, ...])\<close>.\<close>

definition quad :: float32array where
  "quad = Float32Array (map (\<lambda>q. JNumber (Finite q))
     [- 1, - 1, 0, 0,
      - 1, 1, 0, 1,
      1, - 1, 1, 0,
      1, 1, 1, 1])"

text \<open>\<open>compileSource(type, source)\<close>.\<close>

definition compileSource :: "gl_const \<Rightarrow> string \<Rightarrow> gl \<Rightarrow> handle completion \<times> gl" where
  "compileSource ty source g0 =
     (let (shader, g) = gl_createShader ty g0;
          g = gl_exec (ShaderSource shader source) g;
          g = gl_exec (CompileShader shader) g;
          (status, g) = gl_getShaderParameter shader COMPILE_STATUS g
      in if \<not> status
         then (let (log, g) = gl_getShaderInfoLog shader g
               in (Throw (''compile error: '' @ log), g))
         else (Normal shader, g))"

text \<open>
  The constructor \<open>new Shader(gl, vertexSource, fragmentSource)\<close>. An argument that throws
  is evaluated before the call it is an argument of, so a failed \<open>compileSource\<close> ends the
  constructor before \<open>attachShader\<close>.
\<close>

definition Shader_new :: "gl \<Rightarrow> string \<Rightarrow> string \<Rightarrow> Shader completion \<times> gl" where
  "Shader_new g0 vertexSource fragmentSource =
     (let (prog, g) = gl_createProgram g0
      in case compileSource VERTEX_SHADER vertexSource g of
           (Throw e, g) \<Rightarrow> (Throw e, g)
         | (Normal vs, g) \<Rightarrow>
             (let g = gl_exec (AttachShader prog vs) g
              in case compileSource FRAGMENT_SHADER fragmentSource g of
                   (Throw e, g) \<Rightarrow> (Throw e, g)
                 | (Normal fs, g) \<Rightarrow>
                     (let g = gl_exec (AttachShader prog fs) g;
                          g = gl_exec (LinkProgram prog) g;
                          (linked, g) = gl_getProgramParameter prog LINK_STATUS g
                      in if \<not> linked
                         then (let (log, g) = gl_getProgramInfoLog prog g
                               in (Throw (''link error: '' @ log), g))
                         else
                           (let (vb, g) = gl_createBuffer g;
                                g = gl_exec (BindBuffer ARRAY_BUFFER (Some vb)) g;
                                g = gl_exec (BufferData ARRAY_BUFFER quad STATIC_DRAW) g;
                                g = gl_exec (UseProgram (Some prog)) g;
                                (attr, g) = gl_getAttribLocation prog ''position'' g
                            in (Normal \<lparr>program = prog, vertexBuffer = vb,
                                         vertexAttribute = attr\<rparr>, g)))))"

text \<open>\<open>value.length\<close> of an array.\<close>

fun js_length :: "js_value \<Rightarrow> nat" where
  "js_length (JArray vs) = length vs"
| "js_length v = 0"

fun js_elements :: "js_value \<Rightarrow> js_value list" where
  "js_elements (JArray vs) = vs"
| "js_elements v = []"

text \<open>The text thrown for an array of a length that has no uniform call.\<close>

definition unsupported_length :: "string \<Rightarrow> nat \<Rightarrow> string" where
  "unsupported_length name n =
     ''dont know how to load uniform '' @ [CHR 0x22] @ name @ [CHR 0x22] @ '' of length ''
       @ decimal n"

text \<open>\<open>setUniform(name, value)\<close>.\<close>

definition setUniform :: "Shader \<Rightarrow> string \<Rightarrow> js_value \<Rightarrow> gl \<Rightarrow> unit completion \<times> gl" where
  "setUniform sh name val g0 =
     (let g = gl_exec (UseProgram (Some (program sh))) g0;
          (location, g) = gl_getUniformLocation (program sh) name g
      in case location of
           None \<Rightarrow> (Normal (), g)
         | Some loc \<Rightarrow>
             if Array_isArray val then
               (if js_length val = 1 then
                  (Normal (), gl_exec (Uniform1fv loc (Float32Array (js_elements val))) g)
                else if js_length val = 2 then
                  (Normal (), gl_exec (Uniform2fv loc (Float32Array (js_elements val))) g)
                else if js_length val = 3 then
                  (Normal (), gl_exec (Uniform3fv loc (Float32Array (js_elements val))) g)
                else if js_length val = 4 then
                  (Normal (), gl_exec (Uniform4fv loc (Float32Array (js_elements val))) g)
                else if js_length val = 9 then
                  (Normal (),
                   gl_exec (UniformMatrix3fv loc False (Float32Array (js_elements val))) g)
                else if js_length val = 16 then
                  (Normal (),
                   gl_exec (UniformMatrix4fv loc False (Float32Array (js_elements val))) g)
                else (Throw (unsupported_length name (js_length val)), g))
             else if Number_isInteger val then (Normal (), gl_exec (Uniform1i loc val) g)
             else (Normal (), gl_exec (Uniform1f loc val) g))"

text \<open>
  \<open>render(surface, textures)\<close>. \<open>for (let unit in textures)\<close> visits the indices of the
  array in ascending order, each as its decimal text, and that text is what \<open>use\<close> and
  \<open>unuse\<close> receive.
\<close>

definition render :: "Shader \<Rightarrow> Surface \<Rightarrow> Texture list \<Rightarrow> gl \<Rightarrow> gl" where
  "render sh surface texs g0 =
     (let g = sf_bind surface g0;
          g = gl_exec (Viewport 0 0 (sf_getWidth surface g) (sf_getHeight surface g)) g;
          g = fold (\<lambda>(unit, t). tx_use t (decimal unit)) (enumerate 0 texs) g;
          g = gl_exec (EnableVertexAttribArray (vertexAttribute sh)) g;
          g = gl_exec (UseProgram (Some (program sh))) g;
          g = gl_exec (BindBuffer ARRAY_BUFFER (Some (vertexBuffer sh))) g;
          g = gl_exec (VertexAttribPointer (vertexAttribute sh) 4 FLOAT False 0 0) g;
          g = gl_exec (DrawArrays TRIANGLE_STRIP 0 4) g;
          g = fold (\<lambda>(unit, t). tx_unuse t (decimal unit)) (enumerate 0 texs) g
      in sf_unbind surface g)"

section \<open>A context to run the program on\<close>

text \<open>
  A fresh context with a small driver: a source compiles unless it is empty, and a link
  succeeds when every attached shader compiled and none has the source \<open>''unlinkable''\<close>,
  giving the uniform \<open>''amount''\<close> at location 0 and the attribute \<open>''position''\<close> at
  location 0.
\<close>

definition demo_compiler :: "gl_const \<Rightarrow> string \<Rightarrow> bool \<times> string" where
  "demo_compiler ty src = (if src = [] then (False, ''empty source'') else (True, []))"

definition demo_linker :: "shader_obj list \<Rightarrow> link_result" where
  "demo_linker obs =
     (if list_all (\<lambda>ob. sh_status ob \<and> sh_source ob \<noteq> ''unlinkable'') obs
      then \<lparr>lk_ok = True, lk_log = [],
            lk_uniforms = [''amount'' \<mapsto> 0],
            lk_attribs = (\<lambda>n. if n = ''position'' then 0 else - 1)\<rparr>
      else \<lparr>lk_ok = False, lk_log = ''link failed'',
            lk_uniforms = Map.empty, lk_attribs = (\<lambda>n. - 1)\<rparr>)"

definition fresh_context :: gl where
  "fresh_context =
     \<lparr>next_id = 1,
      framebuffers = Map.empty, textures = Map.empty, renderbuffers = Map.empty,
      shaders = Map.empty, programs = Map.empty, buffers = Map.empty,
      framebuffer_binding = None, renderbuffer_binding = None, array_buffer_binding = None,
      active_texture = 0, texture_binding = (\<lambda>u. None),
      current_program = None, viewport = None, uniforms = Map.empty,
      compiler = demo_compiler, linker = demo_linker, trace = []\<rparr>"

section \<open>Sizes of a hidden target\<close>

text \<open>
  The spec's words for the sizes of an offscreen target: the width and height declared on
  its framebuffer, the size of the image of the texture attached as its colour attachment,
  and the size of the storage of the renderbuffer attached as its depth attachment.
  \<open>sizes_match\<close> says that both attachments exist and have the declared size;
  \<open>allocated\<close> that the framebuffer and its attachments are objects the context has
  handed out.
\<close>

definition declared_size :: "gl \<Rightarrow> handle \<Rightarrow> nat \<times> nat" where
  "declared_size g fb = (get_width fb g, get_height fb g)"

definition color_size :: "gl \<Rightarrow> handle \<Rightarrow> (nat \<times> nat) option" where
  "color_size g fb =
     (case framebuffers g fb of
        None \<Rightarrow> None
      | Some ob \<Rightarrow>
          (case fb_color ob of
             None \<Rightarrow> None
           | Some t \<Rightarrow> (case textures g t of None \<Rightarrow> None | Some tob \<Rightarrow> tex_image tob)))"

definition depth_size :: "gl \<Rightarrow> handle \<Rightarrow> (nat \<times> nat) option" where
  "depth_size g fb =
     (case framebuffers g fb of
        None \<Rightarrow> None
      | Some ob \<Rightarrow>
          (case fb_depth ob of
             None \<Rightarrow> None
           | Some rb \<Rightarrow>
               (case renderbuffers g rb of
                  None \<Rightarrow> None
                | Some rob \<Rightarrow> map_option snd (rb_storage rob))))"

definition sizes_match :: "gl \<Rightarrow> handle \<Rightarrow> bool" where
  "sizes_match g fb =
     (color_size g fb = Some (declared_size g fb) \<and> depth_size g fb = Some (declared_size g fb))"

definition allocated :: "gl \<Rightarrow> handle \<Rightarrow> bool" where
  "allocated g fb =
     (fb < next_id g \<and>
      (case framebuffers g fb of
         None \<Rightarrow> False
       | Some ob \<Rightarrow>
           (case fb_color ob of None \<Rightarrow> False | Some t \<Rightarrow> t < next_id g) \<and>
           (case fb_depth ob of None \<Rightarrow> False | Some rb \<Rightarrow> rb < next_id g)))"

section \<open>The link result of a vertex and a fragment source\<close>

text \<open>
  What the linker of the context answers for a vertex and a fragment source: the two shader
  objects as the compiler leaves them, in the order the constructor attaches them.
\<close>

definition linked_pair :: "gl \<Rightarrow> string \<Rightarrow> string \<Rightarrow> link_result" where
  "linked_pair g vs fs =
     linker g
       [\<lparr>sh_type = VERTEX_SHADER, sh_source = vs,
         sh_status = fst (compiler g VERTEX_SHADER vs),
         sh_log = snd (compiler g VERTEX_SHADER vs)\<rparr>,
        \<lparr>sh_type = FRAGMENT_SHADER, sh_source = fs,
         sh_status = fst (compiler g FRAGMENT_SHADER fs),
         sh_log = snd (compiler g FRAGMENT_SHADER fs)\<rparr>]"

section \<open>A shader and a hidden target on the fresh context\<close>

text \<open>
  The context after \<open>new Shader(gl, ''v'', ''f'')\<close> on the fresh context, the shader it
  returns, and then \<open>new HiddenSurface(gl, 4, 3)\<close> on that context.
\<close>

definition shader_context :: gl where
  "shader_context = snd (Shader_new fresh_context ''v'' ''f'')"

definition demo_shader :: Shader where
  "demo_shader = \<lparr>program = 1, vertexBuffer = 4, vertexAttribute = 0\<rparr>"

definition demo_surface :: HiddenSurface where
  "demo_surface = fst (HiddenSurface_new shader_context 4 3)"

definition surface_context :: gl where
  "surface_context = snd (HiddenSurface_new shader_context 4 3)"

section \<open>How one call changes each part of the context\<close>

text \<open>
  One fact for each field of the context: its value after a call, from the values before.
  The theorems below follow a method call by call with these facts.
\<close>

lemma trace_exec: "trace (gl_exec c g) = trace g @ [c]"
  by (simp add: gl_exec_def)

lemma compiler_exec: "compiler (gl_exec c g) = compiler g"
  by (cases c) (simp_all add: gl_exec_def write_uniform_def split: option.split)

lemma linker_exec: "linker (gl_exec c g) = linker g"
  by (cases c) (simp_all add: gl_exec_def write_uniform_def split: option.split)

lemma next_id_exec:
  "next_id (gl_exec c g) =
     (case c of
        CreateFramebuffer \<Rightarrow> Suc (next_id g)
      | CreateTexture \<Rightarrow> Suc (next_id g)
      | CreateRenderbuffer \<Rightarrow> Suc (next_id g)
      | CreateProgram \<Rightarrow> Suc (next_id g)
      | CreateShader ty \<Rightarrow> Suc (next_id g)
      | CreateBuffer \<Rightarrow> Suc (next_id g)
      | _ \<Rightarrow> next_id g)"
  by (cases c) (simp_all add: gl_exec_def write_uniform_def split: option.split)

lemma framebuffer_binding_exec:
  "framebuffer_binding (gl_exec c g) =
     (case c of
        BindFramebuffer tgt fb \<Rightarrow> if tgt = FRAMEBUFFER then fb else framebuffer_binding g
      | _ \<Rightarrow> framebuffer_binding g)"
  by (cases c) (simp_all add: gl_exec_def write_uniform_def split: option.split)

lemma renderbuffer_binding_exec:
  "renderbuffer_binding (gl_exec c g) =
     (case c of
        BindRenderbuffer tgt rb \<Rightarrow> if tgt = RENDERBUFFER then rb else renderbuffer_binding g
      | _ \<Rightarrow> renderbuffer_binding g)"
  by (cases c) (simp_all add: gl_exec_def write_uniform_def split: option.split)

lemma array_buffer_binding_exec:
  "array_buffer_binding (gl_exec c g) =
     (case c of
        BindBuffer tgt b \<Rightarrow> if tgt = ARRAY_BUFFER then b else array_buffer_binding g
      | _ \<Rightarrow> array_buffer_binding g)"
  by (cases c) (simp_all add: gl_exec_def write_uniform_def split: option.split)

lemma active_texture_exec:
  "active_texture (gl_exec c g) = (case c of ActiveTexture u \<Rightarrow> u | _ \<Rightarrow> active_texture g)"
  by (cases c) (simp_all add: gl_exec_def write_uniform_def split: option.split)

lemma texture_binding_exec:
  "texture_binding (gl_exec c g) =
     (case c of
        BindTexture tgt t \<Rightarrow>
          if tgt = TEXTURE_2D then (texture_binding g)(active_texture g := t)
          else texture_binding g
      | _ \<Rightarrow> texture_binding g)"
  by (cases c) (simp_all add: gl_exec_def write_uniform_def split: option.split)

lemma current_program_exec:
  "current_program (gl_exec c g) = (case c of UseProgram p \<Rightarrow> p | _ \<Rightarrow> current_program g)"
  by (cases c) (simp_all add: gl_exec_def write_uniform_def split: option.split)

lemma framebuffers_exec:
  "framebuffers (gl_exec c g) =
     (case c of
        CreateFramebuffer \<Rightarrow>
          (framebuffers g)(next_id g \<mapsto>
             \<lparr>fb_width = None, fb_height = None, fb_color = None, fb_depth = None\<rparr>)
      | FramebufferTexture2D tgt att textgt t level \<Rightarrow>
          (case (if tgt = FRAMEBUFFER \<and> att = COLOR_ATTACHMENT0 then framebuffer_binding g else None) of
             None \<Rightarrow> framebuffers g
           | Some fb \<Rightarrow>
               (case framebuffers g fb of
                  None \<Rightarrow> framebuffers g
                | Some ob \<Rightarrow> (framebuffers g)(fb \<mapsto> ob\<lparr>fb_color := Some t\<rparr>)))
      | FramebufferRenderbuffer tgt att rbtgt rb \<Rightarrow>
          (case (if tgt = FRAMEBUFFER \<and> att = DEPTH_ATTACHMENT then framebuffer_binding g else None) of
             None \<Rightarrow> framebuffers g
           | Some fb \<Rightarrow>
               (case framebuffers g fb of
                  None \<Rightarrow> framebuffers g
                | Some ob \<Rightarrow> (framebuffers g)(fb \<mapsto> ob\<lparr>fb_depth := Some rb\<rparr>)))
      | _ \<Rightarrow> framebuffers g)"
  by (cases c) (simp_all add: gl_exec_def write_uniform_def split: option.split)

lemma textures_exec:
  "textures (gl_exec c g) =
     (case c of
        CreateTexture \<Rightarrow>
          (textures g)(next_id g \<mapsto> \<lparr>tex_params = Map.empty, tex_image = None\<rparr>)
      | TexParameteri tgt pname v \<Rightarrow>
          (case (if tgt = TEXTURE_2D then texture_binding g (active_texture g) else None) of
             None \<Rightarrow> textures g
           | Some t \<Rightarrow>
               (case textures g t of
                  None \<Rightarrow> textures g
                | Some ob \<Rightarrow> (textures g)(t \<mapsto> ob\<lparr>tex_params := (tex_params ob)(pname \<mapsto> v)\<rparr>)))
      | TexImage2D tgt level ifmt w h border fmt ty \<Rightarrow>
          (case (if tgt = TEXTURE_2D then texture_binding g (active_texture g) else None) of
             None \<Rightarrow> textures g
           | Some t \<Rightarrow>
               (case textures g t of
                  None \<Rightarrow> textures g
                | Some ob \<Rightarrow> (textures g)(t \<mapsto> ob\<lparr>tex_image := Some (w, h)\<rparr>)))
      | _ \<Rightarrow> textures g)"
  by (cases c) (simp_all add: gl_exec_def write_uniform_def split: option.split)

lemma renderbuffers_exec:
  "renderbuffers (gl_exec c g) =
     (case c of
        CreateRenderbuffer \<Rightarrow> (renderbuffers g)(next_id g \<mapsto> \<lparr>rb_storage = None\<rparr>)
      | RenderbufferStorage tgt fmt w h \<Rightarrow>
          (case (if tgt = RENDERBUFFER then renderbuffer_binding g else None) of
             None \<Rightarrow> renderbuffers g
           | Some rb \<Rightarrow> (renderbuffers g)(rb \<mapsto> \<lparr>rb_storage = Some (fmt, w, h)\<rparr>))
      | _ \<Rightarrow> renderbuffers g)"
  by (cases c) (simp_all add: gl_exec_def write_uniform_def split: option.split)

lemma shaders_exec:
  "shaders (gl_exec c g) =
     (case c of
        CreateShader ty \<Rightarrow>
          (shaders g)(next_id g \<mapsto>
             \<lparr>sh_type = ty, sh_source = [], sh_status = False, sh_log = []\<rparr>)
      | ShaderSource s src \<Rightarrow>
          (case shaders g s of
             None \<Rightarrow> shaders g
           | Some ob \<Rightarrow> (shaders g)(s \<mapsto> ob\<lparr>sh_source := src\<rparr>))
      | CompileShader s \<Rightarrow>
          (case shaders g s of
             None \<Rightarrow> shaders g
           | Some ob \<Rightarrow>
               (shaders g)(s \<mapsto>
                  ob\<lparr>sh_status := fst (compiler g (sh_type ob) (sh_source ob)),
                     sh_log := snd (compiler g (sh_type ob) (sh_source ob))\<rparr>))
      | _ \<Rightarrow> shaders g)"
  by (cases c) (simp_all add: gl_exec_def write_uniform_def split: option.split)

lemma programs_exec:
  "programs (gl_exec c g) =
     (case c of
        CreateProgram \<Rightarrow>
          (programs g)(next_id g \<mapsto> \<lparr>pr_shaders = [], pr_link = unlinked\<rparr>)
      | AttachShader p s \<Rightarrow>
          (case programs g p of
             None \<Rightarrow> programs g
           | Some ob \<Rightarrow> (programs g)(p \<mapsto> ob\<lparr>pr_shaders := pr_shaders ob @ [s]\<rparr>))
      | LinkProgram p \<Rightarrow>
          (case programs g p of
             None \<Rightarrow> programs g
           | Some ob \<Rightarrow>
               (programs g)(p \<mapsto> ob\<lparr>pr_link := linker g (attached_objs g (pr_shaders ob))\<rparr>))
      | _ \<Rightarrow> programs g)"
  by (cases c) (simp_all add: gl_exec_def write_uniform_def split: option.split)

lemma viewport_exec:
  "viewport (gl_exec c g) =
     (case c of Viewport x y w h \<Rightarrow> Some (x, y, w, h) | _ \<Rightarrow> viewport g)"
  by (cases c) (simp_all add: gl_exec_def write_uniform_def split: option.split)

lemma uniforms_exec:
  "uniforms (gl_exec c g) =
     (case c of
        Uniform1fv loc a \<Rightarrow> uniforms (write_uniform loc c g)
      | Uniform2fv loc a \<Rightarrow> uniforms (write_uniform loc c g)
      | Uniform3fv loc a \<Rightarrow> uniforms (write_uniform loc c g)
      | Uniform4fv loc a \<Rightarrow> uniforms (write_uniform loc c g)
      | UniformMatrix3fv loc tr a \<Rightarrow> uniforms (write_uniform loc c g)
      | UniformMatrix4fv loc tr a \<Rightarrow> uniforms (write_uniform loc c g)
      | Uniform1i loc v \<Rightarrow> uniforms (write_uniform loc c g)
      | Uniform1f loc v \<Rightarrow> uniforms (write_uniform loc c g)
      | _ \<Rightarrow> uniforms g)"
  by (cases c) (simp_all add: gl_exec_def write_uniform_def split: option.split)

lemma uniforms_write:
  "uniforms (write_uniform loc c g) =
     (case current_program g of
        None \<Rightarrow> uniforms g
      | Some p \<Rightarrow> (uniforms g)((p, loc) \<mapsto> c))"
  by (simp add: write_uniform_def split: option.split)

lemmas exec_simps = trace_exec compiler_exec linker_exec next_id_exec
  framebuffer_binding_exec renderbuffer_binding_exec array_buffer_binding_exec
  active_texture_exec texture_binding_exec current_program_exec
  framebuffers_exec textures_exec renderbuffers_exec shaders_exec programs_exec
  viewport_exec uniforms_exec

lemma trace_run: "trace (run cs g) = trace g @ cs"
  by (induction cs arbitrary: g) (simp_all add: trace_exec)

lemma set_width_simps:
  "framebuffers (set_width fb w g) =
     (case framebuffers g fb of
        None \<Rightarrow> framebuffers g
      | Some ob \<Rightarrow> (framebuffers g)(fb \<mapsto> ob\<lparr>fb_width := Some w\<rparr>))"
  "textures (set_width fb w g) = textures g"
  "renderbuffers (set_width fb w g) = renderbuffers g"
  "next_id (set_width fb w g) = next_id g"
  "trace (set_width fb w g) = trace g"
  "framebuffer_binding (set_width fb w g) = framebuffer_binding g"
  "renderbuffer_binding (set_width fb w g) = renderbuffer_binding g"
  "texture_binding (set_width fb w g) = texture_binding g"
  "active_texture (set_width fb w g) = active_texture g"
  by (simp_all add: set_width_def split: option.split)

lemma set_height_simps:
  "framebuffers (set_height fb h g) =
     (case framebuffers g fb of
        None \<Rightarrow> framebuffers g
      | Some ob \<Rightarrow> (framebuffers g)(fb \<mapsto> ob\<lparr>fb_height := Some h\<rparr>))"
  "textures (set_height fb h g) = textures g"
  "renderbuffers (set_height fb h g) = renderbuffers g"
  "next_id (set_height fb h g) = next_id g"
  "trace (set_height fb h g) = trace g"
  "framebuffer_binding (set_height fb h g) = framebuffer_binding g"
  "renderbuffer_binding (set_height fb h g) = renderbuffer_binding g"
  "texture_binding (set_height fb h g) = texture_binding g"
  "active_texture (set_height fb h g) = active_texture g"
  by (simp_all add: set_height_def split: option.split)

lemmas create_defs = gl_createFramebuffer_def gl_createTexture_def gl_createRenderbuffer_def
  gl_createProgram_def gl_createShader_def gl_createBuffer_def

section \<open>The constructor of HiddenSurface, call by call\<close>

lemma HiddenSurface_new_objects:
  "hiddenSurface (fst (HiddenSurface_new g w h)) = next_id g"
  "next_id (snd (HiddenSurface_new g w h)) = Suc (Suc (Suc (next_id g)))"
  "framebuffers (snd (HiddenSurface_new g w h)) (next_id g) =
     Some \<lparr>fb_width = Some w, fb_height = Some h,
           fb_color = Some (Suc (next_id g)), fb_depth = Some (Suc (Suc (next_id g)))\<rparr>"
  "textures (snd (HiddenSurface_new g w h)) (Suc (next_id g)) =
     Some \<lparr>tex_params = [TEXTURE_MAG_FILTER \<mapsto> LINEAR,
                          TEXTURE_MIN_FILTER \<mapsto> LINEAR_MIPMAP_NEAREST],
           tex_image = Some (w, h)\<rparr>"
  "renderbuffers (snd (HiddenSurface_new g w h)) (Suc (Suc (next_id g))) =
     Some \<lparr>rb_storage = Some (DEPTH_COMPONENT16, w, h)\<rparr>"
  "framebuffer_binding (snd (HiddenSurface_new g w h)) = None"
  unfolding HiddenSurface_new_def create_defs Let_def
  by (simp_all add: exec_simps set_width_simps set_height_simps get_width_def get_height_def)

lemma HiddenSurface_new_frame:
  "a \<noteq> next_id g \<Longrightarrow> framebuffers (snd (HiddenSurface_new g w h)) a = framebuffers g a"
  "b \<noteq> Suc (next_id g) \<Longrightarrow> textures (snd (HiddenSurface_new g w h)) b = textures g b"
  "c \<noteq> Suc (Suc (next_id g)) \<Longrightarrow>
     renderbuffers (snd (HiddenSurface_new g w h)) c = renderbuffers g c"
  unfolding HiddenSurface_new_def create_defs Let_def
  by (simp_all add: exec_simps set_width_simps set_height_simps get_width_def get_height_def)

section \<open>The constructor of Shader, stage by stage\<close>

lemma compileSource_fst:
  "fst (compileSource ty src g) =
     (if fst (compiler g ty src) then Normal (next_id g)
      else Throw (''compile error: '' @ snd (compiler g ty src)))"
  unfolding compileSource_def create_defs gl_getShaderParameter_def gl_getShaderInfoLog_def Let_def
  by (simp add: exec_simps)

lemma compileSource_snd:
  "next_id (snd (compileSource ty src g)) = Suc (next_id g)"
  "programs (snd (compileSource ty src g)) = programs g"
  "compiler (snd (compileSource ty src g)) = compiler g"
  "linker (snd (compileSource ty src g)) = linker g"
  "framebuffer_binding (snd (compileSource ty src g)) = framebuffer_binding g"
  "shaders (snd (compileSource ty src g)) =
     (shaders g)(next_id g \<mapsto>
        \<lparr>sh_type = ty, sh_source = src, sh_status = fst (compiler g ty src),
         sh_log = snd (compiler g ty src)\<rparr>)"
  unfolding compileSource_def create_defs gl_getShaderParameter_def gl_getShaderInfoLog_def Let_def
  by (simp_all add: exec_simps)

lemma Shader_new_linked:
  assumes "fst (compiler g VERTEX_SHADER vs)" and "fst (compiler g FRAGMENT_SHADER fs)"
    and "lk_ok (linked_pair g vs fs)"
  shows "next_id (snd (Shader_new g vs fs)) = Suc (Suc (Suc (Suc (next_id g))))"
    and "programs (snd (Shader_new g vs fs)) (next_id g) =
      Some \<lparr>pr_shaders = [Suc (next_id g), Suc (Suc (next_id g))],
            pr_link = linked_pair g vs fs\<rparr>"
    and "framebuffer_binding (snd (Shader_new g vs fs)) = framebuffer_binding g"
  using assms
  unfolding Shader_new_def create_defs gl_getProgramParameter_def gl_getProgramInfoLog_def
    gl_getAttribLocation_def Let_def linked_pair_def
  by (simp_all add: case_prod_beta compileSource_fst compileSource_snd exec_simps
      attached_objs_def)

section \<open>The demonstration context\<close>

lemma fresh_context_driver:
  "fst (compiler fresh_context VERTEX_SHADER ''v'')"
  "fst (compiler fresh_context FRAGMENT_SHADER ''f'')"
  "linked_pair fresh_context ''v'' ''f'' =
     \<lparr>lk_ok = True, lk_log = [], lk_uniforms = [''amount'' \<mapsto> 0],
      lk_attribs = (\<lambda>n. if n = ''position'' then 0 else - 1)\<rparr>"
  by (simp_all add: linked_pair_def fresh_context_def demo_compiler_def demo_linker_def)

lemma shader_context_facts:
  "next_id shader_context = 5"
  "framebuffer_binding shader_context = None"
  "uniform_location shader_context 1 ''amount'' = Some 0"
  "uniform_location shader_context 1 ''colour'' = None"
proof -
  have n: "next_id fresh_context = 1" "framebuffer_binding fresh_context = None"
    by (simp_all add: fresh_context_def)
  have ok: "lk_ok (linked_pair fresh_context ''v'' ''f'')"
    by (simp add: fresh_context_driver)
  note l = Shader_new_linked [OF fresh_context_driver(1) fresh_context_driver(2) ok]
  show "next_id shader_context = 5"
    using l(1) n by (simp add: shader_context_def)
  show "framebuffer_binding shader_context = None"
    using l(3) n by (simp add: shader_context_def)
  show "uniform_location shader_context 1 ''amount'' = Some 0"
    using l(2) n by (simp add: shader_context_def uniform_location_def fresh_context_driver)
  show "uniform_location shader_context 1 ''colour'' = None"
    using l(2) n by (simp add: shader_context_def uniform_location_def fresh_context_driver)
qed

lemma demo_surface_facts:
  "hiddenSurface demo_surface = 5"
  "next_id surface_context = 8"
  "framebuffer_binding surface_context = None"
  "framebuffers surface_context 5 =
     Some \<lparr>fb_width = Some 4, fb_height = Some 3, fb_color = Some 6, fb_depth = Some 7\<rparr>"
  using HiddenSurface_new_objects [of shader_context 4 3]
  by (simp_all add: demo_surface_def surface_context_def shader_context_facts
      eval_nat_numeral)

section \<open>HiddenSurface\<close>

text \<open>
  C8. \<open>HiddenSurface.unbind()\<close> sets the 2D texture binding of the active texture unit to
  null and changes nothing else in the context (the call is recorded); the framebuffer
  binding is as it was, so after \<open>bind()\<close> and then \<open>unbind()\<close> the framebuffer of the
  surface is still bound.
\<close>

theorem unbind_only_detaches_texture:
  "unbind hs g =
     g\<lparr>texture_binding := (texture_binding g)(active_texture g := None),
       trace := trace g @ [BindTexture TEXTURE_2D None]\<rparr>
   \<and> framebuffer_binding (unbind hs g) = framebuffer_binding g
   \<and> framebuffer_binding (bind hs g) = Some (hiddenSurface hs)
   \<and> framebuffer_binding (unbind hs (bind hs g)) = Some (hiddenSurface hs)"
  by (simp add: unbind_def bind_def gl_exec_def)

text \<open>
  C7. Constructing a hidden target of a given width and height creates a framebuffer, a
  texture and a renderbuffer (three fresh objects); the framebuffer declares that width
  and height and has the texture as colour attachment and the renderbuffer as depth
  attachment; the texture has linear magnification, mipmap-nearest minification and an
  image of that size; the renderbuffer has depth storage of that size; and on return the
  framebuffer binding, the 2D texture binding of the active unit and the renderbuffer
  binding are null. The calls made are exactly the listed ones, in that order.
\<close>

theorem HiddenSurface_new_allocates:
  "HiddenSurface_new g width height = (hs, g') \<Longrightarrow>
     hiddenSurface hs = next_id g
   \<and> framebuffer_texture hs = Suc (next_id g)
   \<and> render_buffer hs = Suc (Suc (next_id g))
   \<and> framebuffers g' (hiddenSurface hs) =
       Some \<lparr>fb_width = Some width, fb_height = Some height,
             fb_color = Some (framebuffer_texture hs), fb_depth = Some (render_buffer hs)\<rparr>
   \<and> textures g' (framebuffer_texture hs) =
       Some \<lparr>tex_params = [TEXTURE_MAG_FILTER \<mapsto> LINEAR,
                            TEXTURE_MIN_FILTER \<mapsto> LINEAR_MIPMAP_NEAREST],
             tex_image = Some (width, height)\<rparr>
   \<and> renderbuffers g' (render_buffer hs) =
       Some \<lparr>rb_storage = Some (DEPTH_COMPONENT16, width, height)\<rparr>
   \<and> framebuffer_binding g' = None
   \<and> texture_binding g' (active_texture g') = None
   \<and> renderbuffer_binding g' = None
   \<and> trace g' =
       trace g @
        [CreateFramebuffer, BindFramebuffer FRAMEBUFFER (Some (hiddenSurface hs)),
         CreateTexture, BindTexture TEXTURE_2D (Some (framebuffer_texture hs)),
         TexParameteri TEXTURE_2D TEXTURE_MAG_FILTER LINEAR,
         TexParameteri TEXTURE_2D TEXTURE_MIN_FILTER LINEAR_MIPMAP_NEAREST,
         GenerateMipmap TEXTURE_2D,
         TexImage2D TEXTURE_2D 0 RGBA width height 0 RGBA UNSIGNED_BYTE,
         CreateRenderbuffer, BindRenderbuffer RENDERBUFFER (Some (render_buffer hs)),
         RenderbufferStorage RENDERBUFFER DEPTH_COMPONENT16 width height,
         FramebufferTexture2D FRAMEBUFFER COLOR_ATTACHMENT0 TEXTURE_2D
           (framebuffer_texture hs) 0,
         FramebufferRenderbuffer FRAMEBUFFER DEPTH_ATTACHMENT RENDERBUFFER (render_buffer hs),
         BindTexture TEXTURE_2D None, BindRenderbuffer RENDERBUFFER None,
         BindFramebuffer FRAMEBUFFER None]"
  unfolding HiddenSurface_new_def create_defs Let_def
  by (auto simp add: exec_simps set_width_simps set_height_simps get_width_def get_height_def)

theorem HiddenSurface_new_allocates_witness:
  "hiddenSurface demo_surface = 5
   \<and> framebuffer_texture demo_surface = 6
   \<and> render_buffer demo_surface = 7
   \<and> framebuffers surface_context 5 =
       Some \<lparr>fb_width = Some 4, fb_height = Some 3, fb_color = Some 6, fb_depth = Some 7\<rparr>
   \<and> textures surface_context 6 =
       Some \<lparr>tex_params = [TEXTURE_MAG_FILTER \<mapsto> LINEAR,
                            TEXTURE_MIN_FILTER \<mapsto> LINEAR_MIPMAP_NEAREST],
             tex_image = Some (4, 3)\<rparr>
   \<and> renderbuffers surface_context 7 =
       Some \<lparr>rb_storage = Some (DEPTH_COMPONENT16, 4, 3)\<rparr>
   \<and> framebuffer_binding surface_context = None
   \<and> renderbuffer_binding surface_context = None"
proof -
  have c: "HiddenSurface_new shader_context 4 3 = (demo_surface, surface_context)"
    by (simp add: demo_surface_def surface_context_def)
  show ?thesis
    using HiddenSurface_new_allocates [OF c]
    by (elim conjE) (simp add: shader_context_facts eval_nat_numeral)
qed

text \<open>
  C6. A hidden target as its constructor leaves it, on any context (so also when a target
  is created again): the image of the texture attached as colour attachment and the
  storage of the renderbuffer attached as depth attachment both have the width and height
  declared on the framebuffer, which are the ones passed in. The operations of the source
  that follow keep this: \<open>bind\<close>, \<open>unbind\<close> and \<open>setUniform\<close> on any surface and shader, and
  the construction of another hidden target keeps it for a target whose objects the
  context has handed out.
\<close>

theorem hidden_target_sizes_match:
  "sizes_match (snd (HiddenSurface_new g w h)) (hiddenSurface (fst (HiddenSurface_new g w h)))
   \<and> declared_size (snd (HiddenSurface_new g w h)) (hiddenSurface (fst (HiddenSurface_new g w h)))
       = (w, h)
   \<and> (sizes_match g fb \<longrightarrow>
        sizes_match (bind hs g) fb \<and> sizes_match (unbind hs g) fb
        \<and> sizes_match (snd (setUniform sh name val g)) fb)
   \<and> (sizes_match g fb \<and> allocated g fb \<longrightarrow> sizes_match (snd (HiddenSurface_new g w' h')) fb)"
proof -
  have new: "sizes_match (snd (HiddenSurface_new g w h))
      (hiddenSurface (fst (HiddenSurface_new g w h)))"
    by (simp add: sizes_match_def color_size_def depth_size_def declared_size_def
        get_width_def get_height_def HiddenSurface_new_objects)
  have size: "declared_size (snd (HiddenSurface_new g w h))
      (hiddenSurface (fst (HiddenSurface_new g w h))) = (w, h)"
    by (simp add: declared_size_def get_width_def get_height_def HiddenSurface_new_objects)
  have same: "sizes_match g1 fb = sizes_match g fb"
    if "framebuffers g1 = framebuffers g" "textures g1 = textures g"
      "renderbuffers g1 = renderbuffers g" for g1
    using that
    by (simp add: sizes_match_def color_size_def depth_size_def declared_size_def
        get_width_def get_height_def cong: option.case_cong)
  have b: "sizes_match (bind hs g) fb = sizes_match g fb"
    by (rule same) (simp_all add: bind_def exec_simps)
  have u: "sizes_match (unbind hs g) fb = sizes_match g fb"
    by (rule same) (simp_all add: unbind_def exec_simps)
  have s: "sizes_match (snd (setUniform sh name val g)) fb = sizes_match g fb"
    unfolding setUniform_def Let_def gl_getUniformLocation_def
    by (rule same) (simp_all add: exec_simps split: option.split)
  have kept: "sizes_match (snd (HiddenSurface_new g w' h')) fb"
    if m: "sizes_match g fb" and a: "allocated g fb"
  proof -
    from a obtain ob t rb where
        fb: "fb < next_id g" "framebuffers g fb = Some ob"
        and t: "fb_color ob = Some t" "t < next_id g"
        and rb: "fb_depth ob = Some rb" "rb < next_id g"
      by (auto simp: allocated_def split: option.splits)
    have "framebuffers (snd (HiddenSurface_new g w' h')) fb = framebuffers g fb"
      "textures (snd (HiddenSurface_new g w' h')) t = textures g t"
      "renderbuffers (snd (HiddenSurface_new g w' h')) rb = renderbuffers g rb"
      using fb t rb by (simp_all add: HiddenSurface_new_frame)
    with m fb t rb show ?thesis
      by (simp add: sizes_match_def color_size_def depth_size_def declared_size_def
          get_width_def get_height_def)
  qed
  show ?thesis
    using new size b u s kept by simp
qed

theorem hidden_target_sizes_match_witness:
  "sizes_match surface_context 5
   \<and> allocated surface_context 5
   \<and> declared_size surface_context 5 = (4, 3)
   \<and> sizes_match (bind demo_surface surface_context) 5
   \<and> sizes_match (unbind demo_surface surface_context) 5
   \<and> sizes_match (snd (setUniform demo_shader ''amount'' (JNumber (Finite 1)) surface_context)) 5
   \<and> sizes_match (snd (HiddenSurface_new surface_context 8 8)) 5
   \<and> sizes_match (snd (HiddenSurface_new surface_context 8 8)) 8
   \<and> declared_size (snd (HiddenSurface_new surface_context 8 8)) 8 = (8, 8)"
proof -
  have first: "sizes_match surface_context 5 \<and> declared_size surface_context 5 = (4, 3)"
    using hidden_target_sizes_match [of shader_context 4 3]
    by (simp add: surface_context_def HiddenSurface_new_objects shader_context_facts)
  have a: "allocated surface_context 5"
    by (simp add: allocated_def demo_surface_facts)
  have second: "sizes_match (snd (HiddenSurface_new surface_context 8 8)) 8
      \<and> declared_size (snd (HiddenSurface_new surface_context 8 8)) 8 = (8, 8)"
    using hidden_target_sizes_match [of surface_context 8 8]
    by (simp add: HiddenSurface_new_objects demo_surface_facts)
  show ?thesis
    using first a second
      hidden_target_sizes_match [of surface_context 8 8 5 demo_surface demo_shader
        "''amount''" "JNumber (Finite 1)" 8 8]
    by simp
qed

section \<open>Shader: construction\<close>

text \<open>
  C5. The constructor of \<open>Shader\<close> throws \<open>'compile error: '\<close> followed by the compiler's
  diagnostic text when the vertex source does not compile, and otherwise when the fragment
  source does not compile; when both compile and the link fails it throws
  \<open>'link error: '\<close> followed by the linker's diagnostic text. In each of these cases the
  constructor ends with the throw and yields no shader, so there is nothing \<open>render\<close>
  could be called on; in the remaining case it returns the shader.
\<close>

theorem Shader_new_result:
  "fst (Shader_new g vs fs) =
     (if \<not> fst (compiler g VERTEX_SHADER vs)
      then Throw (''compile error: '' @ snd (compiler g VERTEX_SHADER vs))
      else if \<not> fst (compiler g FRAGMENT_SHADER fs)
      then Throw (''compile error: '' @ snd (compiler g FRAGMENT_SHADER fs))
      else if \<not> lk_ok (linked_pair g vs fs)
      then Throw (''link error: '' @ lk_log (linked_pair g vs fs))
      else Normal \<lparr>program = next_id g, vertexBuffer = Suc (Suc (Suc (next_id g))),
                   vertexAttribute = lk_attribs (linked_pair g vs fs) ''position''\<rparr>)"
  unfolding Shader_new_def create_defs gl_getProgramParameter_def gl_getProgramInfoLog_def
    gl_getAttribLocation_def Let_def linked_pair_def
  by (simp add: case_prod_beta compileSource_fst compileSource_snd exec_simps attached_objs_def)

theorem Shader_new_result_witness:
  "fst (Shader_new fresh_context [] ''f'') = Throw ''compile error: empty source''
   \<and> fst (Shader_new fresh_context ''v'' []) = Throw ''compile error: empty source''
   \<and> fst (Shader_new fresh_context ''v'' ''unlinkable'') = Throw ''link error: link failed''
   \<and> fst (Shader_new fresh_context ''v'' ''f'') = Normal demo_shader"
proof -
  have n: "next_id fresh_context = 1" "compiler fresh_context = demo_compiler"
    "linker fresh_context = demo_linker"
    by (simp_all add: fresh_context_def)
  show ?thesis
    using Shader_new_result [of fresh_context "[]" "''f''"]
      Shader_new_result [of fresh_context "''v''" "[]"]
      Shader_new_result [of fresh_context "''v''" "''unlinkable''"]
      Shader_new_result [of fresh_context "''v''" "''f''"]
    by (simp add: n linked_pair_def demo_compiler_def demo_linker_def demo_shader_def
        eval_nat_numeral)
qed

section \<open>Shader: setUniform\<close>

text \<open>
  C1. With the uniform location found, an array value goes by its length: lengths 1, 2, 3
  and 4 to \<open>uniform1fv\<close>, \<open>uniform2fv\<close>, \<open>uniform3fv\<close> and \<open>uniform4fv\<close>, length 9 to
  \<open>uniformMatrix3fv\<close> and length 16 to \<open>uniformMatrix4fv\<close>, both with the transpose flag
  false, each on the \<open>Float32Array\<close> of the value, after \<open>useProgram\<close> and
  \<open>getUniformLocation\<close>. For every other length no uniform call is made and the text
  thrown has the uniform's name and the length in it.
\<close>

theorem setUniform_array_dispatch:
  assumes "setUniform sh name (JArray vs) g = (r, g')"
    and "uniform_location g (program sh) name = Some loc"
  shows "r =
      (if length vs \<in> {1, 2, 3, 4, 9, 16} then Normal ()
       else Throw (''dont know how to load uniform '' @ [CHR 0x22] @ name @ [CHR 0x22]
              @ '' of length '' @ decimal (length vs)))
    \<and> trace g' =
        trace g @ [UseProgram (Some (program sh)), GetUniformLocation (program sh) name]
        @ (if length vs = 1 then [Uniform1fv loc (Float32Array vs)]
           else if length vs = 2 then [Uniform2fv loc (Float32Array vs)]
           else if length vs = 3 then [Uniform3fv loc (Float32Array vs)]
           else if length vs = 4 then [Uniform4fv loc (Float32Array vs)]
           else if length vs = 9 then [UniformMatrix3fv loc False (Float32Array vs)]
           else if length vs = 16 then [UniformMatrix4fv loc False (Float32Array vs)]
           else [])"
proof -
  have l: "uniform_location (gl_exec (UseProgram (Some (program sh))) g) (program sh) name
      = Some loc"
    using assms(2) by (simp add: uniform_location_def exec_simps)
  have r: "r = fst (setUniform sh name (JArray vs) g)"
    and g': "g' = snd (setUniform sh name (JArray vs) g)"
    using assms(1) by simp_all
  show ?thesis
    unfolding r g' setUniform_def Let_def gl_getUniformLocation_def
    by (simp add: l exec_simps unsupported_length_def)
qed

theorem setUniform_array_dispatch_witness:
  "fst (setUniform demo_shader ''amount'' (JArray [JNumber (Finite 1), JNumber (Finite 2)])
         shader_context) = Normal ()
   \<and> trace (snd (setUniform demo_shader ''amount''
         (JArray [JNumber (Finite 1), JNumber (Finite 2)]) shader_context)) =
       trace shader_context @
        [UseProgram (Some 1), GetUniformLocation 1 ''amount'',
         Uniform2fv 0 (Float32Array [JNumber (Finite 1), JNumber (Finite 2)])]
   \<and> fst (setUniform demo_shader ''amount'' (JArray [JNull, JNull, JNull, JNull, JNull])
         shader_context) =
       Throw (''dont know how to load uniform '' @ [CHR 0x22] @ ''amount'' @ [CHR 0x22]
         @ '' of length 5'')
   \<and> trace (snd (setUniform demo_shader ''amount'' (JArray [JNull, JNull, JNull, JNull, JNull])
         shader_context)) =
       trace shader_context @ [UseProgram (Some 1), GetUniformLocation 1 ''amount'']"
proof -
  have p: "program demo_shader = 1"
    by (simp add: demo_shader_def)
  have l: "uniform_location shader_context (program demo_shader) ''amount'' = Some 0"
    unfolding p by (rule shader_context_facts)
  have d: "decimal (Suc (Suc (Suc (Suc (Suc 0))))) = ''5''"
    by (simp add: decimal.simps digit_def)
  show ?thesis
    using setUniform_array_dispatch [OF prod.collapse [symmetric] l,
        of "[JNumber (Finite 1), JNumber (Finite 2)]"]
      setUniform_array_dispatch [OF prod.collapse [symmetric] l,
        of "[JNull, JNull, JNull, JNull, JNull]"]
    by (simp add: p d)
qed

text \<open>
  C9. With the uniform location found, a value that is not an array goes to \<open>uniform1i\<close>
  when \<open>Number.isInteger\<close> holds of it and to \<open>uniform1f\<close> otherwise, after \<open>useProgram\<close>
  and \<open>getUniformLocation\<close>; nothing is thrown.
\<close>

theorem setUniform_scalar_dispatch:
  assumes "setUniform sh name val g = (r, g')"
    and "uniform_location g (program sh) name = Some loc"
    and "\<not> Array_isArray val"
  shows "r = Normal ()
    \<and> trace g' =
        trace g @
         [UseProgram (Some (program sh)), GetUniformLocation (program sh) name,
          if Number_isInteger val then Uniform1i loc val else Uniform1f loc val]
    \<and> uniforms g' (program sh, loc) =
        Some (if Number_isInteger val then Uniform1i loc val else Uniform1f loc val)"
proof -
  have l: "uniform_location (gl_exec (UseProgram (Some (program sh))) g) (program sh) name
      = Some loc"
    using assms(2) by (simp add: uniform_location_def exec_simps)
  have r: "r = fst (setUniform sh name val g)"
    and g': "g' = snd (setUniform sh name val g)"
    using assms(1) by simp_all
  show ?thesis
    unfolding r g' setUniform_def Let_def gl_getUniformLocation_def
    using assms(3) by (simp add: l exec_simps uniforms_write)
qed

theorem setUniform_scalar_dispatch_witness:
  "trace (snd (setUniform demo_shader ''amount'' (JNumber (Finite 3)) shader_context)) =
     trace shader_context @
      [UseProgram (Some 1), GetUniformLocation 1 ''amount'', Uniform1i 0 (JNumber (Finite 3))]
   \<and> trace (snd (setUniform demo_shader ''amount'' (JNumber (Finite (1 / 2))) shader_context)) =
     trace shader_context @
      [UseProgram (Some 1), GetUniformLocation 1 ''amount'',
       Uniform1f 0 (JNumber (Finite (1 / 2)))]
   \<and> trace (snd (setUniform demo_shader ''amount'' (JString ''3'') shader_context)) =
     trace shader_context @
      [UseProgram (Some 1), GetUniformLocation 1 ''amount'', Uniform1f 0 (JString ''3'')]"
proof -
  have p: "program demo_shader = 1"
    by (simp add: demo_shader_def)
  have l: "uniform_location shader_context (program demo_shader) ''amount'' = Some 0"
    unfolding p by (rule shader_context_facts)
  have f: "\<lfloor>1 / 2 :: rat\<rfloor> = 0"
    by (rule floor_unique) simp_all
  show ?thesis
    using setUniform_scalar_dispatch [OF prod.collapse [symmetric] l, of "JNumber (Finite 3)"]
      setUniform_scalar_dispatch [OF prod.collapse [symmetric] l, of "JNumber (Finite (1 / 2))"]
      setUniform_scalar_dispatch [OF prod.collapse [symmetric] l, of "JString ''3''"]
    by (simp add: p f)
qed

text \<open>
  C2. For a name with no uniform location in the program (\<open>getUniformLocation\<close> answers
  \<open>null\<close>), \<open>setUniform\<close> returns normally for every value, makes no uniform call and
  leaves the uniforms of every program as they were: the context changes only in the
  program in use and in the two calls recorded.
\<close>

theorem setUniform_missing_name:
  assumes "uniform_location g (program sh) name = None"
  shows "setUniform sh name val g =
       (Normal (),
        g\<lparr>current_program := Some (program sh),
          trace := trace g @ [UseProgram (Some (program sh)),
                              GetUniformLocation (program sh) name]\<rparr>)
   \<and> uniforms (snd (setUniform sh name val g)) = uniforms g"
proof -
  have l: "uniform_location (gl_exec (UseProgram (Some (program sh))) g) (program sh) name
      = None"
    using assms by (simp add: uniform_location_def exec_simps)
  show ?thesis
    unfolding setUniform_def Let_def gl_getUniformLocation_def
    by (simp add: l) (simp add: gl_exec_def)
qed

theorem setUniform_missing_name_witness:
  "fst (setUniform demo_shader ''colour'' (JArray [JNull, JNull, JNull, JNull, JNull])
         shader_context) = Normal ()
   \<and> uniforms (snd (setUniform demo_shader ''colour'' (JArray [JNull, JNull, JNull, JNull, JNull])
         shader_context)) = uniforms shader_context
   \<and> trace (snd (setUniform demo_shader ''colour'' (JArray [JNull, JNull, JNull, JNull, JNull])
         shader_context)) =
       trace shader_context @ [UseProgram (Some 1), GetUniformLocation 1 ''colour'']"
proof -
  have p: "program demo_shader = 1"
    by (simp add: demo_shader_def)
  have l: "uniform_location shader_context (program demo_shader) ''colour'' = None"
    unfolding p by (rule shader_context_facts)
  show ?thesis
    using setUniform_missing_name [OF l, of "JArray [JNull, JNull, JNull, JNull, JNull]"]
    by (simp add: p)
qed

text \<open>
  C10. Every call of \<open>setUniform\<close> begins with \<open>useProgram\<close> on the shader's program and
  ends with that program in use: whatever the name and the value, also when the name has
  no location and no uniform is written, and when the call throws.
\<close>

theorem setUniform_activates_program:
  "current_program (snd (setUniform sh name val g)) = Some (program sh)
   \<and> take (Suc (length (trace g))) (trace (snd (setUniform sh name val g))) =
       trace g @ [UseProgram (Some (program sh))]
   \<and> (case uniform_location g (program sh) name of
        None \<Rightarrow> uniforms (snd (setUniform sh name val g)) = uniforms g
      | Some loc \<Rightarrow> True)"
proof -
  have l: "uniform_location (gl_exec (UseProgram (Some (program sh))) g) (program sh) name
      = uniform_location g (program sh) name"
    by (simp add: uniform_location_def exec_simps)
  show ?thesis
    unfolding setUniform_def Let_def gl_getUniformLocation_def
    by (simp add: l exec_simps split: option.split)
qed

section \<open>Shader: render\<close>

lemma trace_fold_use:
  "trace (fold (\<lambda>(unit, t). tx_use t (decimal unit)) (enumerate n (map scripted_texture ts)) g) =
     trace g @ concat (map (\<lambda>(unit, uv). fst uv (decimal unit)) (enumerate n ts))"
  by (induction ts arbitrary: n g) (simp_all add: scripted_texture_def trace_run)

lemma trace_fold_unuse:
  "trace (fold (\<lambda>(unit, t). tx_unuse t (decimal unit)) (enumerate n (map scripted_texture ts)) g) =
     trace g @ concat (map (\<lambda>(unit, uv). snd uv (decimal unit)) (enumerate n ts))"
  by (induction ts arbitrary: n g) (simp_all add: scripted_texture_def trace_run)

lemma run_append: "run (xs @ ys) g = run ys (run xs g)"
  by (induction xs arbitrary: g) simp_all

lemma fold_use_run:
  "fold (\<lambda>(unit, t). tx_use t (decimal unit)) (enumerate n (map scripted_texture ts)) g =
     run (concat (map (\<lambda>(unit, uv). fst uv (decimal unit)) (enumerate n ts))) g"
  by (induction ts arbitrary: n g) (simp_all add: scripted_texture_def run_append)

lemma fold_unuse_run:
  "fold (\<lambda>(unit, t). tx_unuse t (decimal unit)) (enumerate n (map scripted_texture ts)) g =
     run (concat (map (\<lambda>(unit, uv). snd uv (decimal unit)) (enumerate n ts))) g"
  by (induction ts arbitrary: n g) (simp_all add: scripted_texture_def run_append)

lemma size_after_bind:
  "getWidth hs (gl_exec (BindFramebuffer tgt fb) g) = getWidth hs g"
  "getHeight hs (gl_exec (BindFramebuffer tgt fb) g) = getHeight hs g"
  by (simp_all add: getWidth_def getHeight_def get_width_def get_height_def exec_simps)

text \<open>
  C4. The calls of \<open>render(target, textures)\<close>, in order, for a target that binds with the
  calls \<open>bs\<close> and unbinds with the calls \<open>us\<close>, and textures that issue \<open>u unit\<close> on
  \<open>use(unit)\<close> and \<open>v unit\<close> on \<open>unuse(unit)\<close>: the target's bind; the viewport at the
  origin with the width and height the bound target reports; each texture's \<open>use\<close> in
  list order, with the decimal text of its position in the list as unit; the vertex
  attribute, the program, the quad's vertex buffer and its layout; one draw of a triangle
  strip of 4 vertices from 0; each texture's \<open>unuse\<close> in list order with the same unit;
  the target's unbind. A hidden surface is such a target: it binds with
  \<open>bindFramebuffer\<close> on its framebuffer and unbinds with \<open>bindTexture(TEXTURE_2D, null)\<close>.
\<close>

theorem render_call_order:
  "trace (render sh (scripted_surface bs us gw gh) (map scripted_texture ts) g) =
     trace g @ bs
     @ [Viewport 0 0 (gw (run bs g)) (gh (run bs g))]
     @ concat (map (\<lambda>(unit, uv). fst uv (decimal unit)) (enumerate 0 ts))
     @ [EnableVertexAttribArray (vertexAttribute sh),
        UseProgram (Some (program sh)),
        BindBuffer ARRAY_BUFFER (Some (vertexBuffer sh)),
        VertexAttribPointer (vertexAttribute sh) 4 FLOAT False 0 0,
        DrawArrays TRIANGLE_STRIP 0 4]
     @ concat (map (\<lambda>(unit, uv). snd uv (decimal unit)) (enumerate 0 ts))
     @ us
   \<and> hidden_target hs =
       scripted_surface [BindFramebuffer FRAMEBUFFER (Some (hiddenSurface hs))]
         [BindTexture TEXTURE_2D None] (getWidth hs) (getHeight hs)"
proof -
  have "hidden_target hs =
      scripted_surface [BindFramebuffer FRAMEBUFFER (Some (hiddenSurface hs))]
        [BindTexture TEXTURE_2D None] (getWidth hs) (getHeight hs)"
    by (simp add: hidden_target_def scripted_surface_def bind_def unbind_def fun_eq_iff)
  moreover have "trace (render sh (scripted_surface bs us gw gh) (map scripted_texture ts) g) =
     trace g @ bs
     @ [Viewport 0 0 (gw (run bs g)) (gh (run bs g))]
     @ concat (map (\<lambda>(unit, uv). fst uv (decimal unit)) (enumerate 0 ts))
     @ [EnableVertexAttribArray (vertexAttribute sh),
        UseProgram (Some (program sh)),
        BindBuffer ARRAY_BUFFER (Some (vertexBuffer sh)),
        VertexAttribPointer (vertexAttribute sh) 4 FLOAT False 0 0,
        DrawArrays TRIANGLE_STRIP 0 4]
     @ concat (map (\<lambda>(unit, uv). snd uv (decimal unit)) (enumerate 0 ts))
     @ us"
    unfolding render_def Let_def scripted_surface_def
    by (simp add: trace_run trace_exec trace_fold_use trace_fold_unuse)
  ultimately show ?thesis
    by simp
qed

text \<open>
  C4, on the demonstration context: the hidden target of size 4 by 3 and two textures
  (objects 11 and 12) that select the unit named by the text they receive and bind or
  release themselves there.
\<close>

theorem render_call_order_witness:
  "trace (render demo_shader (hidden_target demo_surface)
       (map scripted_texture
          [(\<lambda>k. [ActiveTexture (if k = ''0'' then 0 else 1), BindTexture TEXTURE_2D (Some 11)],
            \<lambda>k. [ActiveTexture (if k = ''0'' then 0 else 1), BindTexture TEXTURE_2D None]),
           (\<lambda>k. [ActiveTexture (if k = ''0'' then 0 else 1), BindTexture TEXTURE_2D (Some 12)],
            \<lambda>k. [ActiveTexture (if k = ''0'' then 0 else 1), BindTexture TEXTURE_2D None])])
       surface_context) =
     trace surface_context @
      [BindFramebuffer FRAMEBUFFER (Some 5),
       Viewport 0 0 4 3,
       ActiveTexture 0, BindTexture TEXTURE_2D (Some 11),
       ActiveTexture 1, BindTexture TEXTURE_2D (Some 12),
       EnableVertexAttribArray 0, UseProgram (Some 1), BindBuffer ARRAY_BUFFER (Some 4),
       VertexAttribPointer 0 4 FLOAT False 0 0,
       DrawArrays TRIANGLE_STRIP 0 4,
       ActiveTexture 0, BindTexture TEXTURE_2D None,
       ActiveTexture 1, BindTexture TEXTURE_2D None,
       BindTexture TEXTURE_2D None]"
proof -
  have d: "decimal 0 = ''0''" "decimal (Suc 0) = ''1''"
    by (simp_all add: decimal.simps digit_def)
  have s: "getWidth demo_surface
        (gl_exec (BindFramebuffer FRAMEBUFFER (Some 5)) surface_context) = 4"
    "getHeight demo_surface
        (gl_exec (BindFramebuffer FRAMEBUFFER (Some 5)) surface_context) = 3"
    by (simp_all add: getWidth_def getHeight_def get_width_def get_height_def exec_simps
        demo_surface_facts)
  have c: "hidden_target demo_surface =
      scripted_surface [BindFramebuffer FRAMEBUFFER (Some (hiddenSurface demo_surface))]
        [BindTexture TEXTURE_2D None] (getWidth demo_surface) (getHeight demo_surface)"
    using render_call_order [of demo_shader "[]" "[]" "\<lambda>g. 0" "\<lambda>g. 0" "[]" surface_context
        demo_surface]
    by simp
  let ?ts = "[(\<lambda>k. [ActiveTexture (if k = ''0'' then 0 else 1), BindTexture TEXTURE_2D (Some 11)],
            \<lambda>k. [ActiveTexture (if k = ''0'' then 0 else 1), BindTexture TEXTURE_2D None]),
           (\<lambda>k. [ActiveTexture (if k = ''0'' then 0 else 1), BindTexture TEXTURE_2D (Some 12)],
            \<lambda>k. [ActiveTexture (if k = ''0'' then 0 else 1), BindTexture TEXTURE_2D None])]"
  show ?thesis
    unfolding c
    using render_call_order [of demo_shader
        "[BindFramebuffer FRAMEBUFFER (Some (hiddenSurface demo_surface))]"
        "[BindTexture TEXTURE_2D None]" "getWidth demo_surface" "getHeight demo_surface"
        ?ts surface_context demo_surface]
    by (simp add: s d demo_shader_def demo_surface_facts)
qed

text \<open>
  C3, as stated, fails: \<open>render\<close> saves and restores no binding. On the demonstration
  context, with no textures: no framebuffer is bound before the call and framebuffer 5 (the
  target's) is bound after it; and with texture 6 bound on unit 0 before the call, nothing
  is bound there after it.
\<close>

theorem render_does_not_restore_bindings:
  "fst (Shader_new fresh_context ''v'' ''f'') = Normal demo_shader
   \<and> HiddenSurface_new shader_context 4 3 = (demo_surface, surface_context)
   \<and> framebuffer_binding surface_context = None
   \<and> framebuffer_binding (render demo_shader (hidden_target demo_surface) [] surface_context)
       = Some 5
   \<and> texture_binding (gl_exec (BindTexture TEXTURE_2D (Some 6)) surface_context) 0 = Some 6
   \<and> texture_binding
        (render demo_shader (hidden_target demo_surface) []
           (gl_exec (BindTexture TEXTURE_2D (Some 6)) surface_context)) 0 = None"
proof -
  have n: "next_id fresh_context = 1" "compiler fresh_context = demo_compiler"
    "linker fresh_context = demo_linker"
    by (simp_all add: fresh_context_def)
  have "fst (Shader_new fresh_context ''v'' ''f'') = Normal demo_shader"
    by (simp add: compileSource_fst compileSource_snd exec_simps attached_objs_def
        Shader_new_def create_defs gl_getProgramParameter_def gl_getProgramInfoLog_def
        gl_getAttribLocation_def Let_def case_prod_beta n demo_compiler_def demo_linker_def
        demo_shader_def eval_nat_numeral)
  moreover have "framebuffer_binding
      (render demo_shader (hidden_target demo_surface) [] surface_context) = Some 5"
    by (simp add: render_def hidden_target_def Let_def unbind_def bind_def exec_simps
        demo_surface_facts)
  moreover have a: "active_texture surface_context = 0"
    unfolding surface_context_def shader_context_def HiddenSurface_new_def Shader_new_def
      compileSource_def create_defs gl_getProgramParameter_def gl_getProgramInfoLog_def
      gl_getAttribLocation_def gl_getShaderParameter_def gl_getShaderInfoLog_def Let_def
    by (simp add: case_prod_beta exec_simps set_width_simps set_height_simps fresh_context_def
        split: if_split)
  moreover have "texture_binding (gl_exec (BindTexture TEXTURE_2D (Some 6)) surface_context) 0
      = Some 6"
    by (simp add: exec_simps a)
  moreover have "texture_binding
        (render demo_shader (hidden_target demo_surface) []
           (gl_exec (BindTexture TEXTURE_2D (Some 6)) surface_context)) 0 = None"
    by (simp add: render_def hidden_target_def Let_def unbind_def bind_def exec_simps a)
  ultimately show ?thesis
    by (simp add: demo_surface_def surface_context_def demo_surface_facts [unfolded
          surface_context_def])
qed

text \<open>
  C3, amended. \<open>render\<close> on a hidden target does the following and nothing else, whatever
  was bound before the call: it binds the target's framebuffer and sets the viewport,
  calls \<open>use(unit)\<close> on every supplied texture, makes the five calls of the draw, then
  calls \<open>unuse(unit)\<close> on every supplied texture, in list order and each with the unit it
  was used with, and last makes the one call of the target's \<open>unbind()\<close>,
  \<open>bindTexture(TEXTURE_2D, null)\<close>. So every supplied texture is released through its own
  \<open>unuse\<close> after the draw, the last call on the context is that \<open>bindTexture\<close>, and on
  return the 2D texture binding of the active texture unit is null. For textures that
  issue \<open>u unit\<close> on \<open>use(unit)\<close> and \<open>v unit\<close> on \<open>unuse(unit)\<close>, the context after
  \<open>render\<close> is the context before it after exactly the listed calls.
\<close>

theorem render_hidden_target_releases:
  "render sh (hidden_target hs) texs g =
     run [BindTexture TEXTURE_2D None]
       (fold (\<lambda>(unit, t). tx_unuse t (decimal unit)) (enumerate 0 texs)
          (run [EnableVertexAttribArray (vertexAttribute sh),
                UseProgram (Some (program sh)),
                BindBuffer ARRAY_BUFFER (Some (vertexBuffer sh)),
                VertexAttribPointer (vertexAttribute sh) 4 FLOAT False 0 0,
                DrawArrays TRIANGLE_STRIP 0 4]
             (fold (\<lambda>(unit, t). tx_use t (decimal unit)) (enumerate 0 texs)
                (run [BindFramebuffer FRAMEBUFFER (Some (hiddenSurface hs)),
                      Viewport 0 0 (getWidth hs g) (getHeight hs g)] g))))
   \<and> render sh (hidden_target hs) (map scripted_texture ts) g =
       run ([BindFramebuffer FRAMEBUFFER (Some (hiddenSurface hs)),
             Viewport 0 0 (getWidth hs g) (getHeight hs g)]
            @ concat (map (\<lambda>(unit, uv). fst uv (decimal unit)) (enumerate 0 ts))
            @ [EnableVertexAttribArray (vertexAttribute sh),
               UseProgram (Some (program sh)),
               BindBuffer ARRAY_BUFFER (Some (vertexBuffer sh)),
               VertexAttribPointer (vertexAttribute sh) 4 FLOAT False 0 0,
               DrawArrays TRIANGLE_STRIP 0 4]
            @ concat (map (\<lambda>(unit, uv). snd uv (decimal unit)) (enumerate 0 ts))
            @ [BindTexture TEXTURE_2D None]) g
   \<and> texture_binding (render sh (hidden_target hs) texs g)
       (active_texture (render sh (hidden_target hs) texs g)) = None
   \<and> last (trace (render sh (hidden_target hs) texs g)) = BindTexture TEXTURE_2D None"
proof -
  have general: "render sh (hidden_target hs) texs g =
     run [BindTexture TEXTURE_2D None]
       (fold (\<lambda>(unit, t). tx_unuse t (decimal unit)) (enumerate 0 texs)
          (run [EnableVertexAttribArray (vertexAttribute sh),
                UseProgram (Some (program sh)),
                BindBuffer ARRAY_BUFFER (Some (vertexBuffer sh)),
                VertexAttribPointer (vertexAttribute sh) 4 FLOAT False 0 0,
                DrawArrays TRIANGLE_STRIP 0 4]
             (fold (\<lambda>(unit, t). tx_use t (decimal unit)) (enumerate 0 texs)
                (run [BindFramebuffer FRAMEBUFFER (Some (hiddenSurface hs)),
                      Viewport 0 0 (getWidth hs g) (getHeight hs g)] g))))"
    for texs
    by (simp add: render_def hidden_target_def Let_def unbind_def bind_def size_after_bind)
  have flat: "render sh (hidden_target hs) (map scripted_texture ts) g =
       run ([BindFramebuffer FRAMEBUFFER (Some (hiddenSurface hs)),
             Viewport 0 0 (getWidth hs g) (getHeight hs g)]
            @ concat (map (\<lambda>(unit, uv). fst uv (decimal unit)) (enumerate 0 ts))
            @ [EnableVertexAttribArray (vertexAttribute sh),
               UseProgram (Some (program sh)),
               BindBuffer ARRAY_BUFFER (Some (vertexBuffer sh)),
               VertexAttribPointer (vertexAttribute sh) 4 FLOAT False 0 0,
               DrawArrays TRIANGLE_STRIP 0 4]
            @ concat (map (\<lambda>(unit, uv). snd uv (decimal unit)) (enumerate 0 ts))
            @ [BindTexture TEXTURE_2D None]) g"
    unfolding general [of "map scripted_texture ts"]
    by (simp only: fold_use_run fold_unuse_run run_append)
  have ends: "texture_binding (render sh (hidden_target hs) texs g)
       (active_texture (render sh (hidden_target hs) texs g)) = None
     \<and> last (trace (render sh (hidden_target hs) texs g)) = BindTexture TEXTURE_2D None"
    by (simp add: render_def hidden_target_def Let_def unbind_def exec_simps)
  show ?thesis
    using general [of texs] flat ends by (intro conjI) simp_all
qed

text \<open>
  C3 amended, on the demonstration context: the hidden target of size 4 by 3 and two
  textures (objects 11 and 12) that select the unit named by the text they receive and
  bind or release themselves there. The calls after the draw are the two releases and the
  target's \<open>unbind()\<close>, and units 0 and 1 are both empty on return.
\<close>

theorem render_hidden_target_releases_witness:
  "trace (render demo_shader (hidden_target demo_surface)
       (map scripted_texture
          [(\<lambda>k. [ActiveTexture (if k = ''0'' then 0 else 1), BindTexture TEXTURE_2D (Some 11)],
            \<lambda>k. [ActiveTexture (if k = ''0'' then 0 else 1), BindTexture TEXTURE_2D None]),
           (\<lambda>k. [ActiveTexture (if k = ''0'' then 0 else 1), BindTexture TEXTURE_2D (Some 12)],
            \<lambda>k. [ActiveTexture (if k = ''0'' then 0 else 1), BindTexture TEXTURE_2D None])])
       surface_context) =
     trace surface_context @
      [BindFramebuffer FRAMEBUFFER (Some 5),
       Viewport 0 0 4 3,
       ActiveTexture 0, BindTexture TEXTURE_2D (Some 11),
       ActiveTexture 1, BindTexture TEXTURE_2D (Some 12),
       EnableVertexAttribArray 0, UseProgram (Some 1), BindBuffer ARRAY_BUFFER (Some 4),
       VertexAttribPointer 0 4 FLOAT False 0 0,
       DrawArrays TRIANGLE_STRIP 0 4,
       ActiveTexture 0, BindTexture TEXTURE_2D None,
       ActiveTexture 1, BindTexture TEXTURE_2D None,
       BindTexture TEXTURE_2D None]
   \<and> texture_binding (render demo_shader (hidden_target demo_surface)
       (map scripted_texture
          [(\<lambda>k. [ActiveTexture (if k = ''0'' then 0 else 1), BindTexture TEXTURE_2D (Some 11)],
            \<lambda>k. [ActiveTexture (if k = ''0'' then 0 else 1), BindTexture TEXTURE_2D None]),
           (\<lambda>k. [ActiveTexture (if k = ''0'' then 0 else 1), BindTexture TEXTURE_2D (Some 12)],
            \<lambda>k. [ActiveTexture (if k = ''0'' then 0 else 1), BindTexture TEXTURE_2D None])])
       surface_context) 0 = None
   \<and> texture_binding (render demo_shader (hidden_target demo_surface)
       (map scripted_texture
          [(\<lambda>k. [ActiveTexture (if k = ''0'' then 0 else 1), BindTexture TEXTURE_2D (Some 11)],
            \<lambda>k. [ActiveTexture (if k = ''0'' then 0 else 1), BindTexture TEXTURE_2D None]),
           (\<lambda>k. [ActiveTexture (if k = ''0'' then 0 else 1), BindTexture TEXTURE_2D (Some 12)],
            \<lambda>k. [ActiveTexture (if k = ''0'' then 0 else 1), BindTexture TEXTURE_2D None])])
       surface_context) 1 = None"
proof -
  have d: "decimal 0 = ''0''" "decimal (Suc 0) = ''1''"
    by (simp_all add: decimal.simps digit_def)
  have s: "getWidth demo_surface surface_context = 4"
    "getHeight demo_surface surface_context = 3"
    by (simp_all add: getWidth_def getHeight_def get_width_def get_height_def
        demo_surface_facts)
  let ?ts = "[(\<lambda>k. [ActiveTexture (if k = ''0'' then 0 else 1), BindTexture TEXTURE_2D (Some 11)],
            \<lambda>k. [ActiveTexture (if k = ''0'' then 0 else 1), BindTexture TEXTURE_2D None]),
           (\<lambda>k. [ActiveTexture (if k = ''0'' then 0 else 1), BindTexture TEXTURE_2D (Some 12)],
            \<lambda>k. [ActiveTexture (if k = ''0'' then 0 else 1), BindTexture TEXTURE_2D None])]"
  have r: "render demo_shader (hidden_target demo_surface) (map scripted_texture ?ts)
        surface_context =
      run ([BindFramebuffer FRAMEBUFFER (Some (hiddenSurface demo_surface)),
             Viewport 0 0 (getWidth demo_surface surface_context)
               (getHeight demo_surface surface_context)]
            @ concat (map (\<lambda>(unit, uv). fst uv (decimal unit)) (enumerate 0 ?ts))
            @ [EnableVertexAttribArray (vertexAttribute demo_shader),
               UseProgram (Some (program demo_shader)),
               BindBuffer ARRAY_BUFFER (Some (vertexBuffer demo_shader)),
               VertexAttribPointer (vertexAttribute demo_shader) 4 FLOAT False 0 0,
               DrawArrays TRIANGLE_STRIP 0 4]
            @ concat (map (\<lambda>(unit, uv). snd uv (decimal unit)) (enumerate 0 ?ts))
            @ [BindTexture TEXTURE_2D None]) surface_context"
    using render_hidden_target_releases [of demo_shader demo_surface "[]" surface_context ?ts]
    by blast
  show ?thesis
    unfolding r by (simp add: d s exec_simps demo_surface_facts demo_shader_def)
qed

end
